theory Spec2Isabelle
  imports Complex_Main
begin

section \<open>Numbers\<close>

text \<open>
  The TypeScript type \<open>number\<close> is IEEE 754 binary64. A finite value is modelled by the
  real number it denotes, and every arithmetic operation rounds its exact result to the
  nearest binary64 value, ties to even. The two infinities and \<open>NaN\<close> are values of their
  own. Zero carries no sign: the calculation never divides by a value that can be a
  negative zero, and nothing else tells the two zeros apart.
\<close>

datatype number = Fin real | PInf | NInf | NaN

text \<open>The infinity of a given sign; no sign (zero) gives \<open>NaN\<close>, as in \<open>0 * Infinity\<close>.\<close>

definition inf_of_sign :: "real \<Rightarrow> number" where
  "inf_of_sign s = (if 0 < s then PInf else if s < 0 then NInf else NaN)"

text \<open>
  \<open>binlog k y\<close> is the integer part of the binary logarithm of \<open>y\<close>, for
  \<open>1 \<le> y < 2 ^ (2 ^ k)\<close>, found bit by bit from the top.
\<close>

fun binlog :: "nat \<Rightarrow> real \<Rightarrow> nat" where
  "binlog 0 y = 0"
| "binlog (Suc k) y =
     (if 2 ^ (2 ^ k) \<le> y then 2 ^ k + binlog k (y / 2 ^ (2 ^ k)) else binlog k y)"

text \<open>Rounding of a real to the nearest integer, a tie going to the even one.\<close>

definition round_ties_even :: "real \<Rightarrow> int" where
  "round_ties_even x =
     (let f = \<lfloor>x\<rfloor>; d = x - of_int f
      in if d < 1 / 2 then f
         else if 1 / 2 < d then f + 1
         else if even f then f else f + 1)"

text \<open>
  The binary64 exponent of a real: that of its binade, and \<open>-1022\<close> below the smallest
  normal value. The unit in the last place is 52 binary digits below it.
\<close>

definition exponent64 :: "real \<Rightarrow> int" where
  "exponent64 x =
     (if \<bar>x\<bar> < 2 powi (- 1022) then - 1022
      else int (binlog 11 (\<bar>x\<bar> * 2 ^ 1022)) - 1022)"

definition ulp64 :: "real \<Rightarrow> real" where
  "ulp64 x = 2 powi (exponent64 x - 52)"

text \<open>
  \<open>rd64 x\<close> is the multiple of the unit in the last place nearest to \<open>x\<close>;
  \<open>round64 x\<close> is the binary64 value of the exact result \<open>x\<close>: that multiple, or an
  infinity when it reaches \<open>2 ^ 1024\<close>.
\<close>

definition rd64 :: "real \<Rightarrow> real" where
  "rd64 x = (if x = 0 then 0 else of_int (round_ties_even (x / ulp64 x)) * ulp64 x)"

definition round64 :: "real \<Rightarrow> number" where
  "round64 x = (if 2 ^ 1024 \<le> \<bar>rd64 x\<bar> then inf_of_sign x else Fin (rd64 x))"

fun signum :: "number \<Rightarrow> real" where
  "signum (Fin a) = sgn a"
| "signum PInf = 1"
| "signum NInf = - 1"
| "signum NaN = 0"

text \<open>The operator \<open>*\<close>.\<close>

fun js_mul :: "number \<Rightarrow> number \<Rightarrow> number" where
  "js_mul NaN y = NaN"
| "js_mul x NaN = NaN"
| "js_mul (Fin a) (Fin b) = round64 (a * b)"
| "js_mul x y = inf_of_sign (signum x * signum y)"

text \<open>The operator \<open>+\<close> on numbers.\<close>

fun js_add :: "number \<Rightarrow> number \<Rightarrow> number" where
  "js_add NaN y = NaN"
| "js_add x NaN = NaN"
| "js_add (Fin a) (Fin b) = round64 (a + b)"
| "js_add PInf NInf = NaN"
| "js_add NInf PInf = NaN"
| "js_add PInf y = PInf"
| "js_add x PInf = PInf"
| "js_add NInf y = NInf"
| "js_add x NInf = NInf"

fun js_neg :: "number \<Rightarrow> number" where
  "js_neg (Fin a) = Fin (- a)"
| "js_neg PInf = NInf"
| "js_neg NInf = PInf"
| "js_neg NaN = NaN"

text \<open>The binary operator \<open>-\<close>.\<close>

definition js_sub :: "number \<Rightarrow> number \<Rightarrow> number" where
  "js_sub x y = js_add x (js_neg y)"

text \<open>
  The operator \<open>/\<close>. A finite value divided by zero is an infinity of the sign of the
  numerator, and \<open>0 / 0\<close> is \<open>NaN\<close>; nothing is raised.
\<close>

fun js_div :: "number \<Rightarrow> number \<Rightarrow> number" where
  "js_div NaN y = NaN"
| "js_div x NaN = NaN"
| "js_div (Fin a) (Fin b) = (if b = 0 then inf_of_sign a else round64 (a / b))"
| "js_div (Fin a) y = Fin 0"
| "js_div PInf (Fin b) = (if b < 0 then NInf else PInf)"
| "js_div NInf (Fin b) = (if b < 0 then PInf else NInf)"
| "js_div x y = NaN"

text \<open>The comparison \<open>x > y\<close>; every comparison with \<open>NaN\<close> is false.\<close>

fun js_gt :: "number \<Rightarrow> number \<Rightarrow> bool" where
  "js_gt NaN y = False"
| "js_gt x NaN = False"
| "js_gt (Fin a) (Fin b) = (b < a)"
| "js_gt x PInf = False"
| "js_gt NInf y = False"
| "js_gt PInf y = True"
| "js_gt x NInf = True"

text \<open>The function \<open>isNaN\<close> on a number.\<close>

fun isNaN :: "number \<Rightarrow> bool" where
  "isNaN NaN = True"
| "isNaN x = False"

section \<open>Values read from an object\<close>

text \<open>
  What reading a property of \<open>ARL_RATES\<close> can give: \<open>undefined\<close>, a number, or a function
  or object, of which only the kind matters here. As an operand of \<open>*\<close> a value is
  converted to a number: \<open>undefined\<close> becomes \<open>NaN\<close>, and so do the functions and the
  object in question, whose string forms are not numeric.
\<close>

datatype jsval = Undefined | Number number | Object

fun to_number :: "jsval \<Rightarrow> number" where
  "to_number (Number x) = x"
| "to_number Undefined = NaN"
| "to_number Object = NaN"

text \<open>
  The property names that an object literal inherits from \<open>Object.prototype\<close>: eleven
  functions and the accessor \<open>__proto__\<close>, which gives an object.
\<close>

definition Object_prototype_keys :: "string list" where
  "Object_prototype_keys =
    [''constructor'', ''hasOwnProperty'', ''isPrototypeOf'', ''propertyIsEnumerable'',
     ''toLocaleString'', ''toString'', ''valueOf'', ''__proto__'',
     ''__defineGetter__'', ''__defineSetter__'', ''__lookupGetter__'', ''__lookupSetter__'']"

text \<open>
  Reading \<open>obj[key]\<close> on an object literal with the given own properties, all numbers:
  an own property first, then an inherited one, else \<open>undefined\<close>.
\<close>

definition get_property :: "(string \<times> number) list \<Rightarrow> string \<Rightarrow> jsval" where
  "get_property obj key =
    (case map_of obj key of
       Some v \<Rightarrow> Number v
     | None \<Rightarrow> if key \<in> set Object_prototype_keys then Object else Undefined)"

section \<open>types.ts\<close>

text \<open>
  The string enum \<open>RiskLevel\<close>: five members, each with the string it is at run time.
\<close>

datatype RiskLevel = I | II | III | IV | V

fun RiskLevel_value :: "RiskLevel \<Rightarrow> string" where
  "RiskLevel_value I = ''I''"
| "RiskLevel_value II = ''II''"
| "RiskLevel_value III = ''III''"
| "RiskLevel_value IV = ''IV''"
| "RiskLevel_value V = ''V''"

record CalculationResults =
  contractValue :: number
  ibc :: number
  health :: number
  pension :: number
  arl :: number
  vacationProvision :: number
  severanceProvision :: number
  contractualRiskProvision :: number
  totalSocialSecurity :: number
  totalProvisions :: number
  totalCosts :: number
  netIncome :: number
  nonDisposablePercent :: number

section \<open>constants.ts\<close>

text \<open>A decimal literal denotes the binary64 value nearest to it.\<close>

definition IBC_PERCENTAGE :: number where
  "IBC_PERCENTAGE = round64 0.40"

definition HEALTH_RATE :: number where
  "HEALTH_RATE = round64 0.125"

definition PENSION_RATE :: number where
  "PENSION_RATE = round64 0.16"

text \<open>The own properties of the object \<open>ARL_RATES\<close>, keyed by the strings of the enum.\<close>

definition ARL_RATES :: "(string \<times> number) list" where
  "ARL_RATES =
    [(RiskLevel_value I, round64 0.00522),
     (RiskLevel_value II, round64 0.01044),
     (RiskLevel_value III, round64 0.02436),
     (RiskLevel_value IV, round64 0.04350),
     (RiskLevel_value V, round64 0.06960)]"

definition VACATION_PROVISION_RATE :: number where
  "VACATION_PROVISION_RATE = round64 0.0417"

definition SEVERANCE_PROVISION_RATE :: number where
  "SEVERANCE_PROVISION_RATE = round64 0.0933"

section \<open>App.tsx: the calculation\<close>

text \<open>
  \<open>results\<close> is a memoised function of the three state variables \<open>contractValue\<close>,
  \<open>riskLevel\<close> and \<open>contractualRiskPercent\<close>; they are its arguments here. The risk
  level is the string held at run time.
\<close>

definition results :: "number \<Rightarrow> string \<Rightarrow> number \<Rightarrow> CalculationResults" where
  "results contractValue' riskLevel contractualRiskPercent =
    (let ibc' = js_mul contractValue' IBC_PERCENTAGE;
         health' = js_mul ibc' HEALTH_RATE;
         pension' = js_mul ibc' PENSION_RATE;
         arl' = js_mul ibc' (to_number (get_property ARL_RATES riskLevel));
         vacationProvision' = js_mul contractValue' VACATION_PROVISION_RATE;
         severanceProvision' = js_mul contractValue' SEVERANCE_PROVISION_RATE;
         contractualRiskRate = js_div contractualRiskPercent (Fin 100);
         contractualRiskProvision' = js_mul contractValue' contractualRiskRate;
         totalSocialSecurity' = js_add (js_add health' pension') arl';
         totalProvisions' =
           js_add (js_add vacationProvision' severanceProvision') contractualRiskProvision';
         totalCosts' = js_add totalSocialSecurity' totalProvisions';
         netIncome' = js_sub contractValue' totalCosts';
         nonDisposablePercent' =
           (if js_gt contractValue' (Fin 0)
            then js_mul (js_div totalCosts' contractValue') (Fin 100)
            else Fin 0)
     in \<lparr>contractValue = contractValue',
         ibc = ibc',
         health = health',
         pension = pension',
         arl = arl',
         vacationProvision = vacationProvision',
         severanceProvision = severanceProvision',
         contractualRiskProvision = contractualRiskProvision',
         totalSocialSecurity = totalSocialSecurity',
         totalProvisions = totalProvisions',
         totalCosts = totalCosts',
         netIncome = netIncome',
         nonDisposablePercent = nonDisposablePercent'\<rparr>)"

record SimulatorResults =
  requiredGross :: number
  difference :: number

text \<open>
  \<open>simulatorResults\<close> is a memoised function of \<open>desiredNetIncome\<close> and \<open>results\<close>. Its
  two local constants \<open>costFactor\<close> and \<open>factorRemainder\<close> are functions of the result.
\<close>

definition costFactor :: "CalculationResults \<Rightarrow> number" where
  "costFactor res =
    (if js_gt (contractValue res) (Fin 0)
     then js_div (totalCosts res) (contractValue res)
     else Fin 0)"

definition factorRemainder :: "CalculationResults \<Rightarrow> number" where
  "factorRemainder res = js_sub (Fin 1) (costFactor res)"

definition simulatorResults :: "number \<Rightarrow> CalculationResults \<Rightarrow> SimulatorResults" where
  "simulatorResults desiredNetIncome res =
    (let requiredGross' =
           (if js_gt (factorRemainder res) (Fin 0)
            then js_div desiredNetIncome (factorRemainder res)
            else Fin 0);
         difference' = js_sub requiredGross' (contractValue res)
     in \<lparr>requiredGross = requiredGross', difference = difference'\<rparr>)"

section \<open>App.tsx: the input handlers\<close>

text \<open>
  \<open>parseInputValue\<close> is the handler of both monetary text fields (the contract value and
  the desired net income). It deletes every character matching \<open>\D\<close>, that is every
  character other than the ten decimal digits, and reads what is left in base ten; the
  empty string, which is falsy, gives 0.
\<close>

definition is_digit :: "char \<Rightarrow> bool" where
  "is_digit c = (c \<in> set ''0123456789'')"

text \<open>
  \<open>parseInt(s, 10)\<close> on a string of decimal digits: the binary64 value of the integer
  that the digits denote, \<open>Infinity\<close> when it is beyond the range. (The language lets an
  implementation read the digits after the twentieth as zeros; the digits are all read
  here.)
\<close>

definition digits_value :: "string \<Rightarrow> nat" where
  "digits_value s = foldl (\<lambda>n c. 10 * n + (of_char c - 48)) 0 s"

definition parseInt10 :: "string \<Rightarrow> number" where
  "parseInt10 s = round64 (real (digits_value s))"

definition parseInputValue :: "string \<Rightarrow> number" where
  "parseInputValue displayVal =
    (let numericStr = filter is_digit displayVal
     in if numericStr \<noteq> [] then parseInt10 numericStr else Fin 0)"

text \<open>
  \<open>handleRiskChange\<close>, from the number \<open>val\<close> that \<open>parseFloat(valStr)\<close> gives; which
  number a text parses to is left open. The result is what is stored as the contractual
  risk percentage.
\<close>

definition handleRiskChange :: "number \<Rightarrow> number" where
  "handleRiskChange val =
    (let val1 = (if isNaN val then Fin 0 else val);
         val2 = (if js_gt val1 (Fin 20) then Fin 20 else val1);
         val3 = (if js_gt (Fin 0) val2 then Fin 0 else val2)
     in val3)"

text \<open>
  The state of the component that the calculation reads, with its initial values, and
  the events that change it: typing in one of the two monetary fields, choosing a risk
  level (the select and the five buttons offer the five members only), typing in the
  risk field, and the three preset buttons.
\<close>

record AppState =
  st_contractValue :: number
  st_riskLevel :: string
  st_contractualRiskPercent :: number
  st_desiredNetIncome :: number

definition initial_state :: AppState where
  "initial_state =
    \<lparr>st_contractValue = Fin 3200000,
     st_riskLevel = RiskLevel_value I,
     st_contractualRiskPercent = Fin 10.0,
     st_desiredNetIncome = Fin 2800000\<rparr>"

datatype event =
    ContractValueInput string
  | RiskLevelChoice RiskLevel
  | RiskInput number
  | RiskPreset5
  | RiskPreset10
  | RiskPreset15
  | DesiredNetIncomeInput string

fun handle :: "AppState \<Rightarrow> event \<Rightarrow> AppState" where
  "handle st (ContractValueInput text) = st\<lparr>st_contractValue := parseInputValue text\<rparr>"
| "handle st (RiskLevelChoice level) = st\<lparr>st_riskLevel := RiskLevel_value level\<rparr>"
| "handle st (RiskInput val) = st\<lparr>st_contractualRiskPercent := handleRiskChange val\<rparr>"
| "handle st RiskPreset5 = st\<lparr>st_contractualRiskPercent := Fin 5\<rparr>"
| "handle st RiskPreset10 = st\<lparr>st_contractualRiskPercent := Fin 10\<rparr>"
| "handle st RiskPreset15 = st\<lparr>st_contractualRiskPercent := Fin 15\<rparr>"
| "handle st (DesiredNetIncomeInput text) = st\<lparr>st_desiredNetIncome := parseInputValue text\<rparr>"

text \<open>The state after a sequence of events, and the two results computed from a state.\<close>

definition run :: "event list \<Rightarrow> AppState" where
  "run evs = foldl handle initial_state evs"

definition results_of :: "AppState \<Rightarrow> CalculationResults" where
  "results_of st =
    results (st_contractValue st) (st_riskLevel st) (st_contractualRiskPercent st)"

definition simulatorResults_of :: "AppState \<Rightarrow> SimulatorResults" where
  "simulatorResults_of st = simulatorResults (st_desiredNetIncome st) (results_of st)"

text \<open>
  The older copy of the component, \<open>src/unnamed/part_000\<close>, computes the same \<open>results\<close>
  from its state. Its contract value field is a number input whose handler stores
  \<open>Number(e.target.value)\<close>: the number \<open>val\<close> that the text converts to, as it is.
\<close>

definition part_000_contractValue_onChange :: "number \<Rightarrow> number" where
  "part_000_contractValue_onChange val = val"

section \<open>The calculation as the specification words it\<close>

text \<open>
  The rate table of the specification, \<open>rateFor\<close>, on the five risk classes, with the
  statutory constants as exact decimal fractions.
\<close>

fun rateFor :: "RiskLevel \<Rightarrow> real" where
  "rateFor I = 0.00522"
| "rateFor II = 0.01044"
| "rateFor III = 0.02436"
| "rateFor IV = 0.04350"
| "rateFor V = 0.06960"

text \<open>
  The algorithm of the forward calculator as the specification gives it, over the reals.
  The specification's \<open>baseIncome\<close> is the field \<open>ibc\<close> and its \<open>accidentInsurance\<close>
  the field \<open>arl\<close>.
\<close>

definition spec_compute :: "real \<Rightarrow> RiskLevel \<Rightarrow> real \<Rightarrow> CalculationResults" where
  "spec_compute cv riskClass percent =
    (let baseIncome = cv * 0.40;
         health' = baseIncome * 0.125;
         pension' = baseIncome * 0.16;
         accidentInsurance = baseIncome * rateFor riskClass;
         vacationProvision' = cv * 0.0417;
         severanceProvision' = cv * 0.0933;
         contractualRiskProvision' = cv * (percent / 100);
         totalSocialSecurity' = health' + pension' + accidentInsurance;
         totalProvisions' = vacationProvision' + severanceProvision' + contractualRiskProvision';
         totalCosts' = totalSocialSecurity' + totalProvisions';
         netIncome' = cv - totalCosts';
         nonDisposablePercent' = (if cv > 0 then (totalCosts' / cv) * 100 else 0)
     in \<lparr>contractValue = Fin cv,
         ibc = Fin baseIncome,
         health = Fin health',
         pension = Fin pension',
         arl = Fin accidentInsurance,
         vacationProvision = Fin vacationProvision',
         severanceProvision = Fin severanceProvision',
         contractualRiskProvision = Fin contractualRiskProvision',
         totalSocialSecurity = Fin totalSocialSecurity',
         totalProvisions = Fin totalProvisions',
         totalCosts = Fin totalCosts',
         netIncome = Fin netIncome',
         nonDisposablePercent = Fin nonDisposablePercent'\<rparr>)"


section \<open>Tolerances\<close>

text \<open>
  \<open>near t a b\<close>: both numbers are finite and differ by at most \<open>t\<close>.
\<close>

fun near :: "real \<Rightarrow> number \<Rightarrow> number \<Rightarrow> bool" where
  "near t (Fin x) (Fin y) = (\<bar>x - y\<bar> \<le> t)"
| "near t a b = False"

text \<open>
  Two results agree within \<open>t\<close> on every amount, and within \<open>t'\<close> on the percentage.
\<close>

definition results_near ::
  "real \<Rightarrow> real \<Rightarrow> CalculationResults \<Rightarrow> CalculationResults \<Rightarrow> bool" where
  "results_near t t' a b =
    (near t (contractValue a) (contractValue b) \<and>
     near t (ibc a) (ibc b) \<and>
     near t (health a) (health b) \<and>
     near t (pension a) (pension b) \<and>
     near t (arl a) (arl b) \<and>
     near t (vacationProvision a) (vacationProvision b) \<and>
     near t (severanceProvision a) (severanceProvision b) \<and>
     near t (contractualRiskProvision a) (contractualRiskProvision b) \<and>
     near t (totalSocialSecurity a) (totalSocialSecurity b) \<and>
     near t (totalProvisions a) (totalProvisions b) \<and>
     near t (totalCosts a) (totalCosts b) \<and>
     near t (netIncome a) (netIncome b) \<and>
     near t' (nonDisposablePercent a) (nonDisposablePercent b))"

text \<open>
  The unit roundoff of binary64 and its smallest positive normal value.
\<close>

definition u64 :: real where
  "u64 = 1 / 2 ^ 53"

definition tiny64 :: real where
  "tiny64 = 2 powi (- 1022)"

text \<open>
  The sum of all rates applied to the contract value, for a risk class and a contractual
  risk percentage: every cost is the contract value times a fixed rate.
\<close>

definition cost_rate :: "RiskLevel \<Rightarrow> real \<Rightarrow> real" where
  "cost_rate r p = 0.40 * (0.125 + 0.16 + rateFor r) + 0.0417 + 0.0933 + p / 100"

text \<open>A number that is finite and not negative, or the positive infinity.\<close>

fun nonneg :: "number \<Rightarrow> bool" where
  "nonneg (Fin x) = (0 \<le> x)"
| "nonneg PInf = True"
| "nonneg NInf = False"
| "nonneg NaN = False"

text \<open>
  What holds of every state the handlers can reach: the two amounts are not negative, the
  percentage is a number from 0 to 20, and the risk level is one of the five.
\<close>

definition valid_state :: "AppState \<Rightarrow> bool" where
  "valid_state st =
    (nonneg (st_contractValue st) \<and>
     nonneg (st_desiredNetIncome st) \<and>
     near 10 (st_contractualRiskPercent st) (Fin 10) \<and>
     st_riskLevel st \<in> set (map RiskLevel_value [I, II, III, IV, V]))"

section \<open>Rounding: the error of one operation\<close>

lemma binlog_bounds:
  "1 \<le> y \<Longrightarrow> y < 2 ^ (2 ^ k) \<Longrightarrow> 2 ^ binlog k y \<le> y \<and> y < 2 ^ (binlog k y + 1)"
proof (induction k arbitrary: y)
  case 0
  then show ?case by simp
next
  case (Suc k)
  let ?h = "(2::real) ^ (2 ^ k)"
  have h: "0 < ?h" by simp
  show ?case
  proof (cases "?h \<le> y")
    case True
    have a: "1 \<le> y / ?h"
      using True h by (simp add: field_simps)
    have "y < ?h * ?h"
      using Suc.prems(2) by (simp add: power_add [symmetric] mult_2)
    then have b: "y / ?h < ?h"
      using h by (simp add: field_simps)
    from Suc.IH [OF a b] have ih:
      "2 ^ binlog k (y / ?h) \<le> y / ?h" "y / ?h < 2 ^ (binlog k (y / ?h) + 1)"
      by simp_all
    from ih(1) have "?h * 2 ^ binlog k (y / ?h) \<le> y"
      using h by (simp add: field_simps)
    moreover from ih(2) have "y < ?h * 2 ^ (binlog k (y / ?h) + 1)"
      using h by (simp add: field_simps)
    ultimately show ?thesis
      using True by (simp add: power_add)
  next
    case False
    then have "y < ?h" by simp
    from Suc.IH [OF Suc.prems(1) this] False show ?thesis by simp
  qed
qed

lemma round_ties_even_error: "\<bar>of_int (round_ties_even x) - x\<bar> \<le> 1 / 2"
proof -
  have "of_int \<lfloor>x\<rfloor> \<le> x" "x < of_int \<lfloor>x\<rfloor> + 1"
    by linarith+
  then show ?thesis
    unfolding round_ties_even_def Let_def
    by (auto simp: abs_le_iff)
qed

lemma round_ties_even_nonneg: "0 \<le> x \<Longrightarrow> 0 \<le> round_ties_even x"
  unfolding round_ties_even_def Let_def
  by (auto intro: order_trans [of 0 "\<lfloor>x\<rfloor>"])

lemma ulp64_pos: "0 < ulp64 x"
  by (simp add: ulp64_def)

lemma rd64_ulp: "\<bar>rd64 x - x\<bar> \<le> ulp64 x / 2"
proof (cases "x = 0")
  case True
  then show ?thesis using ulp64_pos [of x] by (simp add: rd64_def)
next
  case False
  let ?q = "ulp64 x"
  have q: "0 < ?q" by (rule ulp64_pos)
  have "rd64 x - x = (of_int (round_ties_even (x / ?q)) - x / ?q) * ?q"
    using False q by (simp add: rd64_def field_simps)
  then have "\<bar>rd64 x - x\<bar> = \<bar>of_int (round_ties_even (x / ?q)) - x / ?q\<bar> * ?q"
    using q by (simp add: abs_mult)
  also have "\<dots> \<le> (1 / 2) * ?q"
    using round_ties_even_error [of "x / ?q"] q by (intro mult_right_mono) simp_all
  finally show ?thesis by simp
qed

lemma ulp64_le:
  assumes "\<bar>x\<bar> < 2 ^ 1026"
  shows "ulp64 x / 2 \<le> u64 * max \<bar>x\<bar> tiny64"
proof (cases "\<bar>x\<bar> < 2 powi (- 1022)")
  case True
  then have "ulp64 x = 2 powi (- 1074)"
    by (simp add: ulp64_def exponent64_def)
  then have "ulp64 x / 2 = u64 * tiny64"
    by (simp add: u64_def tiny64_def power_int_minus field_simps)
  also have "\<dots> \<le> u64 * max \<bar>x\<bar> tiny64"
    by (simp add: u64_def)
  finally show ?thesis .
next
  case False
  let ?y = "\<bar>x\<bar> * 2 ^ 1022"
  let ?b = "binlog 11 ?y"
  from False have "1 \<le> ?y"
    by (simp add: power_int_minus field_simps)
  moreover have "?y < 2 ^ (2 ^ 11)"
  proof -
    have "?y < 2 ^ 1026 * 2 ^ 1022"
      using assms by (intro mult_strict_right_mono) simp_all
    also have "\<dots> = (2::real) ^ (2 ^ 11)"
      by (simp add: power_add [symmetric])
    finally show ?thesis .
  qed
  ultimately have b: "2 ^ ?b \<le> ?y"
    using binlog_bounds [of ?y 11] by simp
  have "ulp64 x = 2 powi (int ?b - 1074)"
    using False by (simp add: ulp64_def exponent64_def)
  also have "\<dots> = 2 ^ ?b / 2 ^ 1074"
    by (simp add: power_int_diff)
  finally have "ulp64 x / 2 = u64 * (2 ^ ?b / 2 ^ 1022)"
    by (simp add: u64_def field_simps)
  also have "\<dots> \<le> u64 * \<bar>x\<bar>"
    using b by (intro mult_left_mono) (simp_all add: u64_def field_simps)
  also have "\<dots> \<le> u64 * max \<bar>x\<bar> tiny64"
    by (simp add: u64_def)
  finally show ?thesis .
qed

lemma rd64_error:
  "\<bar>x\<bar> < 2 ^ 1026 \<Longrightarrow> \<bar>rd64 x - x\<bar> \<le> u64 * max \<bar>x\<bar> tiny64"
  using rd64_ulp [of x] ulp64_le [of x] by linarith

lemma rd64_nonneg: "0 \<le> x \<Longrightarrow> 0 \<le> rd64 x"
  using ulp64_pos [of x] round_ties_even_nonneg [of "x / ulp64 x"]
  by (simp add: rd64_def)

lemma u64_bounds: "0 < u64" "u64 \<le> 1"
  by (simp_all add: u64_def)

lemma tiny64_bounds: "0 < tiny64" "tiny64 \<le> 1"
  by (simp_all add: tiny64_def power_int_minus field_simps)

text \<open>
  Rounding at a scale \<open>s\<close>: an exact result of size at most \<open>c * s\<close> rounds to a finite
  number, within \<open>c * u64 * s\<close> of it.
\<close>

lemma round64_scale:
  assumes s: "tiny64 \<le> s" and c: "1 \<le> c" and x: "\<bar>x\<bar> \<le> c * s" and r: "c * s \<le> 2 ^ 1023"
  shows "round64 x = Fin (rd64 x)" and "\<bar>rd64 x - x\<bar> \<le> c * u64 * s"
proof -
  have t: "0 < tiny64" by (rule tiny64_bounds)
  have u: "0 < u64" "u64 \<le> 1" by (rule u64_bounds)+
  have "s \<le> c * s"
    using c s t by (simp add: mult_le_cancel_right1)
  then have m: "max \<bar>x\<bar> tiny64 \<le> c * s"
    using x s by simp
  have x': "\<bar>x\<bar> < 2 ^ 1026"
    using x r by (simp add: order_le_less_trans [of "\<bar>x\<bar>" "2 ^ 1023"])
  have "\<bar>rd64 x - x\<bar> \<le> u64 * (c * s)"
    using rd64_error [OF x'] mult_left_mono [OF m, of u64] u by linarith
  then show e: "\<bar>rd64 x - x\<bar> \<le> c * u64 * s"
    by (simp add: mult_ac)
  have "u64 * (c * s) \<le> (1 / 2) * 2 ^ 1023"
    using r s t c by (intro mult_mono) (simp_all add: u64_def)
  then have "u64 * (c * s) \<le> 2 ^ 1022"
    by simp
  with e have "\<bar>rd64 x\<bar> \<le> 2 ^ 1023 + 2 ^ 1022"
    using x r by (simp add: mult_ac abs_le_iff)
  also have "\<dots> < (2::real) ^ 1024"
    by simp
  finally have "\<bar>rd64 x\<bar> < 2 ^ 1024" .
  then show "round64 x = Fin (rd64 x)"
    by (simp add: round64_def)
qed

lemma round64_near:
  assumes "tiny64 \<le> s" and "1 \<le> c" and "\<bar>x\<bar> \<le> c * s" and "c * s \<le> 2 ^ 1023"
  shows "near (c * u64 * s) (round64 x) (Fin x)"
  using round64_scale [OF assms] by simp

text \<open>A result that is not negative rounds to a number that is not negative.\<close>

lemma round64_nonneg: "0 \<le> x \<Longrightarrow> nonneg (round64 x)"
  using rd64_nonneg [of x] by (cases "x = 0") (simp_all add: round64_def inf_of_sign_def rd64_def)

lemma near_mono: "near t a b \<Longrightarrow> t \<le> t' \<Longrightarrow> near t' a b"
  by (cases a; cases b) simp_all

lemma near_FinE:
  assumes "near t a (Fin y)"
  obtains x where "a = Fin x" and "\<bar>x - y\<bar> \<le> t"
  using assms by (cases a) simp_all

section \<open>Rounding: the error of the operators\<close>

text \<open>
  Each rule bounds the distance of a computed number from an exact value, given such
  bounds for the operands: the error carried over, and the rounding of the result.
\<close>

text \<open>The error of a product of a value at scale s with a value at scale 1.\<close>

lemma mul_near:
  assumes n: "near a n (Fin X)" and m: "near b m (Fin R)"
    and X: "\<bar>X\<bar> \<le> s" and R: "\<bar>R\<bar> \<le> 1" and a: "a \<le> s" and b: "b \<le> 1"
    and s: "tiny64 \<le> s" "4 * s \<le> 2 ^ 1023"
  shows "near (2 * a + s * b + 4 * u64 * s) (js_mul n m) (Fin (X * R))"
proof -
  from n obtain x where x: "n = Fin x" "\<bar>x - X\<bar> \<le> a" by (rule near_FinE)
  from m obtain r where r: "m = Fin r" "\<bar>r - R\<bar> \<le> b" by (rule near_FinE)
  have s0: "0 \<le> s" using s(1) tiny64_bounds(1) by linarith
  have x2: "\<bar>x\<bar> \<le> 2 * s" using x(2) X a by linarith
  have r2: "\<bar>r\<bar> \<le> 2" using r(2) R b by linarith
  have "\<bar>x * r\<bar> \<le> (2 * s) * 2"
    unfolding abs_mult using x2 r2 by (intro mult_mono) simp_all
  then have xr: "\<bar>x * r\<bar> \<le> 4 * s" by simp
  have rnd: "round64 (x * r) = Fin (rd64 (x * r))" "\<bar>rd64 (x * r) - x * r\<bar> \<le> 4 * u64 * s"
    using round64_scale [OF s(1) _ xr s(2)] by simp_all
  have e1: "\<bar>(x - X) * r\<bar> \<le> a * 2"
    unfolding abs_mult using x(2) r2 by (intro mult_mono) simp_all
  have e2: "\<bar>X * (r - R)\<bar> \<le> s * b"
    unfolding abs_mult using X r(2) s0 by (intro mult_mono) simp_all
  have "x * r - X * R = (x - X) * r + X * (r - R)"
    by (simp add: algebra_simps)
  then have "\<bar>x * r - X * R\<bar> \<le> a * 2 + s * b"
    using e1 e2 by linarith
  with rnd(2) have "\<bar>rd64 (x * r) - X * R\<bar> \<le> 2 * a + s * b + 4 * u64 * s"
    by linarith
  then show ?thesis
    by (simp add: x(1) r(1) rnd(1))
qed

lemma add_near:
  assumes n: "near a n (Fin X)" and m: "near b m (Fin Y)"
    and XY: "\<bar>X + Y\<bar> \<le> s" and ab: "a + b \<le> s"
    and s: "tiny64 \<le> s" "4 * s \<le> 2 ^ 1023"
  shows "near (a + b + 4 * u64 * s) (js_add n m) (Fin (X + Y))"
proof -
  from n obtain x where x: "n = Fin x" "\<bar>x - X\<bar> \<le> a" by (rule near_FinE)
  from m obtain y where y: "m = Fin y" "\<bar>y - Y\<bar> \<le> b" by (rule near_FinE)
  have xy: "\<bar>x + y\<bar> \<le> 4 * s" using x(2) y(2) XY ab by linarith
  have rnd: "round64 (x + y) = Fin (rd64 (x + y))" "\<bar>rd64 (x + y) - (x + y)\<bar> \<le> 4 * u64 * s"
    using round64_scale [OF s(1) _ xy s(2)] by simp_all
  from rnd(2) x(2) y(2) have "\<bar>rd64 (x + y) - (X + Y)\<bar> \<le> a + b + 4 * u64 * s"
    by linarith
  then show ?thesis
    by (simp add: x(1) y(1) rnd(1))
qed

lemma sub_near:
  assumes n: "near a n (Fin X)" and m: "near b m (Fin Y)"
    and XY: "\<bar>X - Y\<bar> \<le> s" and ab: "a + b \<le> s"
    and s: "tiny64 \<le> s" "4 * s \<le> 2 ^ 1023"
  shows "near (a + b + 4 * u64 * s) (js_sub n m) (Fin (X - Y))"
proof -
  from m have "near b (js_neg m) (Fin (- Y))"
    by (cases m) simp_all
  from add_near [OF n this _ ab s] XY show ?thesis
    by (simp add: js_sub_def)
qed

text \<open>Division of a value at scale s by the scale itself.\<close>

lemma div_scale_near:
  assumes n: "near a n (Fin X)" and X: "\<bar>X\<bar> \<le> s" and a: "a \<le> s" and s: "0 < s"
  shows "near (a / s + 4 * u64) (js_div n (Fin s)) (Fin (X / s))"
proof -
  from n obtain x where x: "n = Fin x" "\<bar>x - X\<bar> \<le> a" by (rule near_FinE)
  have "\<bar>x\<bar> \<le> 2 * s" using x(2) X a by linarith
  then have "\<bar>x\<bar> / s \<le> 2" using s by (simp add: field_simps)
  then have q: "\<bar>x / s\<bar> \<le> 4 * 1" using s by simp
  have rnd: "round64 (x / s) = Fin (rd64 (x / s))" "\<bar>rd64 (x / s) - x / s\<bar> \<le> 4 * u64 * 1"
    using round64_scale [OF tiny64_bounds(2) _ q] by simp_all
  have "x / s - X / s = (x - X) / s"
    by (simp add: diff_divide_distrib)
  then have "\<bar>x / s - X / s\<bar> = \<bar>x - X\<bar> / s"
    using s by simp
  also have "\<dots> \<le> a / s"
    using x(2) s by (simp add: divide_right_mono)
  finally have "\<bar>rd64 (x / s) - X / s\<bar> \<le> a / s + 4 * u64"
    using rnd(2) by linarith
  then show ?thesis
    using s by (simp add: x(1) rnd(1))
qed


section \<open>The forward calculator: the error of every field\<close>

lemma results_fields:
  "contractValue (results c rl q) = c"
  "ibc (results c rl q) = js_mul c IBC_PERCENTAGE"
  "health (results c rl q) = js_mul (ibc (results c rl q)) HEALTH_RATE"
  "pension (results c rl q) = js_mul (ibc (results c rl q)) PENSION_RATE"
  "arl (results c rl q) = js_mul (ibc (results c rl q)) (to_number (get_property ARL_RATES rl))"
  "vacationProvision (results c rl q) = js_mul c VACATION_PROVISION_RATE"
  "severanceProvision (results c rl q) = js_mul c SEVERANCE_PROVISION_RATE"
  "contractualRiskProvision (results c rl q) = js_mul c (js_div q (Fin 100))"
  "totalSocialSecurity (results c rl q) =
     js_add (js_add (health (results c rl q)) (pension (results c rl q))) (arl (results c rl q))"
  "totalProvisions (results c rl q) =
     js_add (js_add (vacationProvision (results c rl q)) (severanceProvision (results c rl q)))
       (contractualRiskProvision (results c rl q))"
  "totalCosts (results c rl q) =
     js_add (totalSocialSecurity (results c rl q)) (totalProvisions (results c rl q))"
  "netIncome (results c rl q) = js_sub c (totalCosts (results c rl q))"
  "nonDisposablePercent (results c rl q) =
     (if js_gt c (Fin 0)
      then js_mul (js_div (totalCosts (results c rl q)) c) (Fin 100)
      else Fin 0)"
  by (simp_all add: results_def Let_def)

lemma rate_near: "\<bar>x\<bar> \<le> 1 \<Longrightarrow> near u64 (round64 x) (Fin x)"
  using round64_near [of 1 1 x] tiny64_bounds(2) by simp

lemma get_ARL_RATES:
  "get_property ARL_RATES (RiskLevel_value r) = Number (round64 (rateFor r))"
  by (cases r) (simp_all add: get_property_def ARL_RATES_def)

lemma rateFor_bounds: "0 < rateFor r \<and> rateFor r \<le> 0.0696"
  by (cases r) simp_all

lemma percent_rate_near:
  assumes "0 \<le> p" and "p \<le> 20"
  shows "near u64 (js_div (Fin p) (Fin 100)) (Fin (p / 100))"
proof -
  have "\<bar>p / 100\<bar> \<le> 1" using assms by simp
  from rate_near [OF this] show ?thesis by simp
qed

lemma results_error:
  fixes cv p :: real
  assumes cv: "tiny64 \<le> cv" "cv \<le> 2 ^ 1020" and p: "0 \<le> p" "p \<le> 20"
  shows "near (5 * (u64 * cv)) (ibc (results (Fin cv) (RiskLevel_value r) (Fin p)))
           (Fin (cv * 0.40))"
    and "near (15 * (u64 * cv)) (health (results (Fin cv) (RiskLevel_value r) (Fin p)))
           (Fin (cv * 0.40 * 0.125))"
    and "near (15 * (u64 * cv)) (pension (results (Fin cv) (RiskLevel_value r) (Fin p)))
           (Fin (cv * 0.40 * 0.16))"
    and "near (15 * (u64 * cv)) (arl (results (Fin cv) (RiskLevel_value r) (Fin p)))
           (Fin (cv * 0.40 * rateFor r))"
    and "near (5 * (u64 * cv)) (vacationProvision (results (Fin cv) (RiskLevel_value r) (Fin p)))
           (Fin (cv * 0.0417))"
    and "near (5 * (u64 * cv)) (severanceProvision (results (Fin cv) (RiskLevel_value r) (Fin p)))
           (Fin (cv * 0.0933))"
    and "near (5 * (u64 * cv))
           (contractualRiskProvision (results (Fin cv) (RiskLevel_value r) (Fin p)))
           (Fin (cv * (p / 100)))"
    and "near (53 * (u64 * cv)) (totalSocialSecurity (results (Fin cv) (RiskLevel_value r) (Fin p)))
           (Fin (cv * 0.40 * 0.125 + cv * 0.40 * 0.16 + cv * 0.40 * rateFor r))"
    and "near (23 * (u64 * cv)) (totalProvisions (results (Fin cv) (RiskLevel_value r) (Fin p)))
           (Fin (cv * 0.0417 + cv * 0.0933 + cv * (p / 100)))"
    and "near (80 * (u64 * cv)) (totalCosts (results (Fin cv) (RiskLevel_value r) (Fin p)))
           (Fin (cv * cost_rate r p))"
    and "near (84 * (u64 * cv)) (netIncome (results (Fin cv) (RiskLevel_value r) (Fin p)))
           (Fin (cv - cv * cost_rate r p))"
proof -
  let ?res = "results (Fin cv) (RiskLevel_value r) (Fin p)"
  define e where "e = u64 * cv"
  define A where "A = cv * 0.40 * rateFor r"
  define P where "P = cv * (p / 100)"
  have cv0: "0 < cv" using cv(1) tiny64_bounds(1) by linarith
  have s4: "4 * cv \<le> 2 ^ 1023" using cv(2) by simp
  have e0: "0 \<le> e" "1000 * e \<le> cv"
    using cv0 by (simp_all add: e_def u64_def)
  have A: "0 \<le> A" "A \<le> cv * 0.03"
  proof -
    have "0 \<le> cv * 0.40 * rateFor r"
      using cv0 rateFor_bounds [of r] by simp
    then show "0 \<le> A" by (simp add: A_def)
    have "cv * 0.40 * rateFor r \<le> cv * 0.40 * 0.0696"
      using cv0 rateFor_bounds [of r] by (intro mult_left_mono) simp_all
    then show "A \<le> cv * 0.03" using cv0 by (simp add: A_def)
  qed
  have P: "0 \<le> P" "P \<le> cv * 0.2"
  proof -
    show "0 \<le> P" using cv0 p by (simp add: P_def)
    have "cv * (p / 100) \<le> cv * (20 / 100)"
      using cv0 p by (intro mult_left_mono) simp_all
    then show "P \<le> cv * 0.2" by (simp add: P_def)
  qed
  have c0: "near 0 (Fin cv) (Fin cv)" by simp
  have k40: "near u64 IBC_PERCENTAGE (Fin 0.40)"
    unfolding IBC_PERCENTAGE_def by (rule rate_near) simp
  have k125: "near u64 HEALTH_RATE (Fin 0.125)"
    unfolding HEALTH_RATE_def by (rule rate_near) simp
  have k16: "near u64 PENSION_RATE (Fin 0.16)"
    unfolding PENSION_RATE_def by (rule rate_near) simp
  have kvac: "near u64 VACATION_PROVISION_RATE (Fin 0.0417)"
    unfolding VACATION_PROVISION_RATE_def by (rule rate_near) simp
  have ksev: "near u64 SEVERANCE_PROVISION_RATE (Fin 0.0933)"
    unfolding SEVERANCE_PROVISION_RATE_def by (rule rate_near) simp
  have karl: "near u64 (to_number (get_property ARL_RATES (RiskLevel_value r))) (Fin (rateFor r))"
  proof -
    have "\<bar>rateFor r\<bar> \<le> 1" using rateFor_bounds [of r] by simp
    from rate_near [OF this] show ?thesis by (simp add: get_ARL_RATES)
  qed
  have kp: "near u64 (js_div (Fin p) (Fin 100)) (Fin (p / 100))"
    using p by (rule percent_rate_near)
  have u1: "u64 \<le> 1" by (rule u64_bounds)
  have r1: "\<bar>rateFor r\<bar> \<le> 1" using rateFor_bounds [of r] by simp
  have p1: "\<bar>p / 100\<bar> \<le> 1" using p by simp

  have "near (2 * 0 + cv * u64 + 4 * u64 * cv) (js_mul (Fin cv) IBC_PERCENTAGE) (Fin (cv * 0.40))"
    using c0 k40 _ _ _ u1 cv(1) s4 by (rule mul_near) (use cv0 in simp_all)
  then have ibc: "near (5 * e) (ibc ?res) (Fin (cv * 0.40))"
    by (simp add: results_fields e_def algebra_simps)
  have ibcX: "\<bar>cv * 0.40\<bar> \<le> cv" using cv0 by simp
  have a5: "5 * e \<le> cv" using e0 by linarith

  have "near (2 * (5 * e) + cv * u64 + 4 * u64 * cv) (js_mul (ibc ?res) HEALTH_RATE)
          (Fin (cv * 0.40 * 0.125))"
    using ibc k125 ibcX _ a5 u1 cv(1) s4 by (rule mul_near) simp
  then have health: "near (15 * e) (health ?res) (Fin (cv * 0.40 * 0.125))"
    by (simp add: results_fields e_def algebra_simps)

  have "near (2 * (5 * e) + cv * u64 + 4 * u64 * cv) (js_mul (ibc ?res) PENSION_RATE)
          (Fin (cv * 0.40 * 0.16))"
    using ibc k16 ibcX _ a5 u1 cv(1) s4 by (rule mul_near) simp
  then have pension: "near (15 * e) (pension ?res) (Fin (cv * 0.40 * 0.16))"
    by (simp add: results_fields e_def algebra_simps)

  have "near (2 * (5 * e) + cv * u64 + 4 * u64 * cv)
          (js_mul (ibc ?res) (to_number (get_property ARL_RATES (RiskLevel_value r))))
          (Fin (cv * 0.40 * rateFor r))"
    using ibc karl ibcX r1 a5 u1 cv(1) s4 by (rule mul_near)
  then have arl: "near (15 * e) (arl ?res) (Fin A)"
    by (simp add: results_fields e_def A_def algebra_simps)

  have "near (2 * 0 + cv * u64 + 4 * u64 * cv) (js_mul (Fin cv) VACATION_PROVISION_RATE)
          (Fin (cv * 0.0417))"
    using c0 kvac _ _ _ u1 cv(1) s4 by (rule mul_near) (use cv0 in simp_all)
  then have vac: "near (5 * e) (vacationProvision ?res) (Fin (cv * 0.0417))"
    by (simp add: results_fields e_def algebra_simps)

  have "near (2 * 0 + cv * u64 + 4 * u64 * cv) (js_mul (Fin cv) SEVERANCE_PROVISION_RATE)
          (Fin (cv * 0.0933))"
    using c0 ksev _ _ _ u1 cv(1) s4 by (rule mul_near) (use cv0 in simp_all)
  then have sev: "near (5 * e) (severanceProvision ?res) (Fin (cv * 0.0933))"
    by (simp add: results_fields e_def algebra_simps)

  have "near (2 * 0 + cv * u64 + 4 * u64 * cv) (js_mul (Fin cv) (js_div (Fin p) (Fin 100)))
          (Fin (cv * (p / 100)))"
    using c0 kp _ p1 _ u1 cv(1) s4 by (rule mul_near) (use cv0 in simp_all)
  then have crp: "near (5 * e) (contractualRiskProvision ?res) (Fin P)"
    by (simp add: results_fields e_def P_def algebra_simps)

  have "near (15 * e + 15 * e + 4 * u64 * cv) (js_add (health ?res) (pension ?res))
          (Fin (cv * 0.40 * 0.125 + cv * 0.40 * 0.16))"
    using health pension _ _ cv(1) s4 by (rule add_near) (use cv0 e0 in simp_all)
  then have hp: "near (34 * e) (js_add (health ?res) (pension ?res))
          (Fin (cv * 0.40 * 0.125 + cv * 0.40 * 0.16))"
    by (simp add: e_def algebra_simps)
  have "near (34 * e + 15 * e + 4 * u64 * cv) (js_add (js_add (health ?res) (pension ?res)) (arl ?res))
          (Fin (cv * 0.40 * 0.125 + cv * 0.40 * 0.16 + A))"
    using hp arl _ _ cv(1) s4 by (rule add_near) (use cv0 e0 A in simp_all)
  then have tss: "near (53 * e) (totalSocialSecurity ?res)
          (Fin (cv * 0.40 * 0.125 + cv * 0.40 * 0.16 + A))"
    by (simp add: results_fields e_def algebra_simps)

  have "near (5 * e + 5 * e + 4 * u64 * cv)
          (js_add (vacationProvision ?res) (severanceProvision ?res))
          (Fin (cv * 0.0417 + cv * 0.0933))"
    using vac sev _ _ cv(1) s4 by (rule add_near) (use cv0 e0 in simp_all)
  then have vs: "near (14 * e) (js_add (vacationProvision ?res) (severanceProvision ?res))
          (Fin (cv * 0.0417 + cv * 0.0933))"
    by (simp add: e_def algebra_simps)
  have "near (14 * e + 5 * e + 4 * u64 * cv)
          (js_add (js_add (vacationProvision ?res) (severanceProvision ?res))
             (contractualRiskProvision ?res))
          (Fin (cv * 0.0417 + cv * 0.0933 + P))"
    using vs crp _ _ cv(1) s4 by (rule add_near) (use cv0 e0 P in simp_all)
  then have tp: "near (23 * e) (totalProvisions ?res) (Fin (cv * 0.0417 + cv * 0.0933 + P))"
    by (simp add: results_fields e_def algebra_simps)

  define T where "T = (cv * 0.40 * 0.125 + cv * 0.40 * 0.16 + A) + (cv * 0.0417 + cv * 0.0933 + P)"
  have T: "0 \<le> T" "T \<le> cv * 0.48"
    using cv0 A P by (simp_all add: T_def)
  have "near (53 * e + 23 * e + 4 * u64 * cv)
          (js_add (totalSocialSecurity ?res) (totalProvisions ?res))
          (Fin ((cv * 0.40 * 0.125 + cv * 0.40 * 0.16 + A) + (cv * 0.0417 + cv * 0.0933 + P)))"
    using tss tp _ _ cv(1) s4 by (rule add_near) (use cv0 e0 A P in simp_all)
  then have tc: "near (80 * e) (totalCosts ?res) (Fin T)"
    by (simp add: results_fields e_def T_def algebra_simps)

  have "near (0 + 80 * e + 4 * u64 * cv) (js_sub (Fin cv) (totalCosts ?res)) (Fin (cv - T))"
    using c0 tc _ _ cv(1) s4 by (rule sub_near) (use cv0 e0 T in simp_all)
  then have ni: "near (84 * e) (netIncome ?res) (Fin (cv - T))"
    by (simp add: results_fields e_def algebra_simps)

  have TK: "T = cv * cost_rate r p"
    by (simp add: T_def A_def P_def cost_rate_def algebra_simps)

  show "near (5 * (u64 * cv)) (ibc ?res) (Fin (cv * 0.40))"
    using ibc by (simp add: e_def)
  show "near (15 * (u64 * cv)) (health ?res) (Fin (cv * 0.40 * 0.125))"
    using health by (simp add: e_def)
  show "near (15 * (u64 * cv)) (pension ?res) (Fin (cv * 0.40 * 0.16))"
    using pension by (simp add: e_def)
  show "near (15 * (u64 * cv)) (arl ?res) (Fin (cv * 0.40 * rateFor r))"
    using arl by (simp add: e_def A_def)
  show "near (5 * (u64 * cv)) (vacationProvision ?res) (Fin (cv * 0.0417))"
    using vac by (simp add: e_def)
  show "near (5 * (u64 * cv)) (severanceProvision ?res) (Fin (cv * 0.0933))"
    using sev by (simp add: e_def)
  show "near (5 * (u64 * cv)) (contractualRiskProvision ?res) (Fin (cv * (p / 100)))"
    using crp by (simp add: e_def P_def)
  show "near (53 * (u64 * cv)) (totalSocialSecurity ?res)
          (Fin (cv * 0.40 * 0.125 + cv * 0.40 * 0.16 + cv * 0.40 * rateFor r))"
    using tss by (simp add: e_def A_def)
  show "near (23 * (u64 * cv)) (totalProvisions ?res)
          (Fin (cv * 0.0417 + cv * 0.0933 + cv * (p / 100)))"
    using tp by (simp add: e_def P_def)
  show "near (80 * (u64 * cv)) (totalCosts ?res) (Fin (cv * cost_rate r p))"
    using tc by (simp add: e_def TK)
  show "near (84 * (u64 * cv)) (netIncome ?res) (Fin (cv - cv * cost_rate r p))"
    using ni by (simp add: e_def TK)
qed

section \<open>The ratio, the percentage and the simulator on a result\<close>

lemma cost_rate_bounds:
  assumes "0 \<le> p" and "p \<le> 20"
  shows "0 < cost_rate r p" and "cost_rate r p \<le> 0.47684"
proof -
  have r: "0 < rateFor r" "rateFor r \<le> 0.0696"
    using rateFor_bounds [of r] by simp_all
  have eq: "cost_rate r p = 0.249 + 0.4 * rateFor r + p / 100"
    by (simp add: cost_rate_def algebra_simps)
  from r assms show "0 < cost_rate r p"
    unfolding eq by (simp add: add_pos_nonneg)
  from r assms show "cost_rate r p \<le> 0.47684"
    unfolding eq by simp
qed

text \<open>Multiplication of a value at scale 1 by the exact constant 100.\<close>

lemma mul100_near:
  assumes n: "near a n (Fin X)" and X: "\<bar>X\<bar> \<le> 1" and a: "a \<le> 1"
  shows "near (100 * a + 400 * u64) (js_mul n (Fin 100)) (Fin (X * 100))"
proof -
  from n obtain x where x: "n = Fin x" "\<bar>x - X\<bar> \<le> a" by (rule near_FinE)
  have "\<bar>x\<bar> \<le> 2" using x(2) X a by linarith
  then have q: "\<bar>x * 100\<bar> \<le> 4 * 100" by (simp add: abs_mult)
  have t: "tiny64 \<le> 100" using tiny64_bounds(2) by linarith
  have rnd: "round64 (x * 100) = Fin (rd64 (x * 100))"
    "\<bar>rd64 (x * 100) - x * 100\<bar> \<le> 4 * u64 * 100"
    using round64_scale [OF t _ q] by simp_all
  have "\<bar>x * 100 - X * 100\<bar> \<le> 100 * a"
    using x(2) by (simp add: abs_le_iff)
  with rnd(2) have "\<bar>rd64 (x * 100) - X * 100\<bar> \<le> 100 * a + 400 * u64"
    by linarith
  then show ?thesis
    by (simp add: x(1) rnd(1))
qed

lemma ratio_error:
  fixes cv p :: real
  assumes cv: "tiny64 \<le> cv" "cv \<le> 2 ^ 1020" and p: "0 \<le> p" "p \<le> 20"
  shows "near (84 * u64)
           (js_div (totalCosts (results (Fin cv) (RiskLevel_value r) (Fin p))) (Fin cv))
           (Fin (cost_rate r p))"
proof -
  let ?res = "results (Fin cv) (RiskLevel_value r) (Fin p)"
  have cv0: "0 < cv" using cv(1) tiny64_bounds(1) by linarith
  have K: "0 < cost_rate r p" "cost_rate r p \<le> 0.47684"
    using p by (rule cost_rate_bounds)+
  have X: "\<bar>cv * cost_rate r p\<bar> \<le> cv"
  proof -
    have "cv * cost_rate r p \<le> cv * 1"
      using cv0 K by (intro mult_left_mono) simp_all
    moreover have "0 \<le> cv * cost_rate r p"
      using cv0 K by simp
    ultimately show ?thesis by simp
  qed
  have a: "80 * (u64 * cv) \<le> cv"
    using cv0 by (simp add: u64_def)
  have "near (80 * (u64 * cv) / cv + 4 * u64) (js_div (totalCosts ?res) (Fin cv))
          (Fin (cv * cost_rate r p / cv))"
    using results_error(10) [OF cv p, of r] X a cv0 by (rule div_scale_near)
  then show ?thesis
    using cv0 by (simp add: algebra_simps)
qed

lemma costFactor_error:
  fixes cv p :: real
  assumes cv: "tiny64 \<le> cv" "cv \<le> 2 ^ 1020" and p: "0 \<le> p" "p \<le> 20"
  shows "near (84 * u64) (costFactor (results (Fin cv) (RiskLevel_value r) (Fin p)))
           (Fin (cost_rate r p))"
proof -
  have cv0: "0 < cv" using cv(1) tiny64_bounds(1) by linarith
  then show ?thesis
    using ratio_error [OF cv p, of r] by (simp add: costFactor_def results_fields)
qed

lemma nonDisposablePercent_error:
  fixes cv p :: real
  assumes cv: "tiny64 \<le> cv" "cv \<le> 2 ^ 1020" and p: "0 \<le> p" "p \<le> 20"
  shows "near (8800 * u64) (nonDisposablePercent (results (Fin cv) (RiskLevel_value r) (Fin p)))
           (Fin (cost_rate r p * 100))"
proof -
  have cv0: "0 < cv" using cv(1) tiny64_bounds(1) by linarith
  have K: "0 < cost_rate r p" "cost_rate r p \<le> 0.47684"
    using p by (rule cost_rate_bounds)+
  have "near (100 * (84 * u64) + 400 * u64)
          (js_mul (js_div (totalCosts (results (Fin cv) (RiskLevel_value r) (Fin p))) (Fin cv))
             (Fin 100))
          (Fin (cost_rate r p * 100))"
    using ratio_error [OF cv p, of r] by (rule mul100_near) (use K in \<open>simp_all add: u64_def\<close>)
  then show ?thesis
    using cv0 by (simp add: results_fields)
qed

lemma factorRemainder_error:
  fixes cv p :: real
  assumes cv: "tiny64 \<le> cv" "cv \<le> 2 ^ 1020" and p: "0 \<le> p" "p \<le> 20"
  shows "near (88 * u64) (factorRemainder (results (Fin cv) (RiskLevel_value r) (Fin p)))
           (Fin (1 - cost_rate r p))"
proof -
  have K: "0 < cost_rate r p" "cost_rate r p \<le> 0.47684"
    using p by (rule cost_rate_bounds)+
  have one: "near 0 (Fin 1) (Fin 1)" by simp
  have "near (0 + 84 * u64 + 4 * u64 * 1)
          (js_sub (Fin 1) (costFactor (results (Fin cv) (RiskLevel_value r) (Fin p))))
          (Fin (1 - cost_rate r p))"
    using one costFactor_error [OF cv p, of r] _ _ tiny64_bounds(2)
    by (rule sub_near) (use K in \<open>simp_all add: u64_def\<close>)
  then show ?thesis
    by (simp add: factorRemainder_def)
qed

text \<open>The remainder of a result of the forward calculator is a number above a half.\<close>

lemma factorRemainder_positive:
  fixes cv p :: real
  assumes cv: "tiny64 \<le> cv" "cv \<le> 2 ^ 1020" and p: "0 \<le> p" "p \<le> 20"
  shows "\<exists>m. factorRemainder (results (Fin cv) (RiskLevel_value r) (Fin p)) = Fin m \<and>
           1 / 2 < m \<and> \<bar>m - (1 - cost_rate r p)\<bar> \<le> 88 * u64"
proof -
  from factorRemainder_error [OF cv p, of r]
  obtain m where m: "factorRemainder (results (Fin cv) (RiskLevel_value r) (Fin p)) = Fin m"
    "\<bar>m - (1 - cost_rate r p)\<bar> \<le> 88 * u64"
    by (rule near_FinE)
  have K: "cost_rate r p \<le> 48 / 100"
    using cost_rate_bounds(2) [OF p, of r] by simp
  have "88 * u64 \<le> 1 / 100" by (simp add: u64_def)
  with m(2) K have "1 / 2 < m" by linarith
  with m show ?thesis by blast
qed


section \<open>Evaluation\<close>

text \<open>
  A concrete rounding is settled by its certificate: the exponent of the exact result
  and the integer nearest to it in units of the last place.
\<close>

lemma powi_nat_diff: "(2::real) powi (int k - 1022) = 2 ^ k / 2 ^ 1022"
  by (simp add: power_int_diff)

lemma powi_half: "(2::real) powi (e - 53) = 2 powi (e - 52) / 2"
proof -
  have "(2::real) powi (e - 52) = 2 powi ((e - 53) + 1)"
    by simp
  also have "\<dots> = 2 powi (e - 53) * 2"
    by (rule power_int_add_1) simp
  finally show ?thesis by simp
qed

lemma exponent64_eqI:
  assumes lo: "2 powi e \<le> \<bar>x\<bar>" and hi: "\<bar>x\<bar> < 2 powi (e + 1)"
    and e: "- 1022 \<le> e" "e \<le> 1024"
  shows "exponent64 x = e"
proof -
  define m where "m = nat (e + 1022)"
  have m: "e = int m - 1022" using e by (simp add: m_def)
  let ?y = "\<bar>x\<bar> * 2 ^ 1022"
  have sub: "\<not> \<bar>x\<bar> < 2 powi (- 1022)"
  proof -
    have "(2::real) powi (- 1022) \<le> 2 powi e"
      using e by (intro power_int_increasing) simp_all
    with lo show ?thesis by linarith
  qed
  have p2: "(2::real) powi e = 2 ^ m / 2 ^ 1022"
    by (simp add: m power_int_diff)
  have p2': "(2::real) powi (e + 1) = 2 ^ (m + 1) / 2 ^ 1022"
  proof -
    have "(2::real) powi (e + 1) = 2 powi (int (Suc m) - 1022)"
      by (simp add: m)
    also have "\<dots> = 2 ^ Suc m / 2 ^ 1022"
      by (rule powi_nat_diff)
    finally show ?thesis by simp
  qed
  have ylo: "2 ^ m \<le> ?y"
    using lo by (simp add: p2 field_simps)
  have yhi: "?y < 2 ^ (m + 1)"
    using hi unfolding p2' by (simp add: field_simps)
  have "1 \<le> ?y"
    using ylo one_le_power [of "2::real" m] by linarith
  moreover have "?y < 2 ^ (2 ^ 11)"
  proof -
    have "m + 1 \<le> 2 ^ 11" using e by (simp add: m_def)
    then have "(2::real) ^ (m + 1) \<le> 2 ^ (2 ^ 11)"
      by (intro power_increasing) simp_all
    with yhi show ?thesis by linarith
  qed
  ultimately have b: "2 ^ binlog 11 ?y \<le> ?y" "?y < 2 ^ (binlog 11 ?y + 1)"
    using binlog_bounds [of ?y 11] by simp_all
  have one: "(1::real) < 2" by simp
  have lt1: "(2::real) ^ binlog 11 ?y < 2 ^ (m + 1)"
    using b(1) yhi by linarith
  have "binlog 11 ?y < m + 1"
    using one lt1 by (rule power_less_imp_less_exp)
  moreover have lt2: "(2::real) ^ m < 2 ^ (binlog 11 ?y + 1)"
    using b(2) ylo by linarith
  have "m < binlog 11 ?y + 1"
    using one lt2 by (rule power_less_imp_less_exp)
  ultimately have "binlog 11 ?y = m" by linarith
  then show ?thesis
    using sub by (simp add: exponent64_def m)
qed

lemma round_ties_even_eqI:
  assumes "\<bar>x - of_int n\<bar> < 1 / 2"
  shows "round_ties_even x = n"
proof (cases "of_int n \<le> x")
  case True
  then have "\<lfloor>x\<rfloor> = n" using assms by (intro floor_unique) linarith+
  then show ?thesis using assms True by (simp add: round_ties_even_def)
next
  case False
  then have "\<lfloor>x\<rfloor> = n - 1" using assms by (intro floor_unique) simp_all
  then show ?thesis using assms False by (simp add: round_ties_even_def)
qed

lemma round_ties_even_tie:
  assumes "x = of_int m + 1 / 2"
  shows "round_ties_even x = (if even m then m else m + 1)"
proof -
  have "\<lfloor>x\<rfloor> = m" using assms by (intro floor_unique) simp_all
  then show ?thesis using assms by (simp add: round_ties_even_def)
qed

text \<open>
  The certificate of one rounding: the exponent \<open>e\<close> of the exact result \<open>x\<close> and the
  integer \<open>n\<close> nearest to it in units of the last place.
\<close>

lemma round64_eqI:
  assumes lo: "2 powi e \<le> \<bar>x\<bar>" and hi: "\<bar>x\<bar> < 2 powi (e + 1)"
    and e: "- 1022 \<le> e" "e \<le> 1023"
    and n: "\<bar>x - of_int n * 2 powi (e - 52)\<bar> < 2 powi (e - 53)"
    and y: "y = of_int n * 2 powi (e - 52)"
    and fin: "\<bar>y\<bar> < 2 ^ 1024"
  shows "round64 x = Fin y"
proof -
  let ?q = "(2::real) powi (e - 52)"
  have q: "0 < ?q" by simp
  have ex: "exponent64 x = e"
    using lo hi e by (intro exponent64_eqI) simp_all
  have x0: "x \<noteq> 0"
  proof
    assume "x = 0"
    with lo have "(2::real) powi e \<le> 0" by simp
    moreover have "0 < (2::real) powi e" by simp
    ultimately show False by linarith
  qed
  have half: "(2::real) powi (e - 53) = ?q / 2"
    by (rule powi_half)
  have "x / ?q - of_int n = (x - of_int n * ?q) / ?q"
    using q by (simp add: field_simps)
  then have "\<bar>x / ?q - of_int n\<bar> = \<bar>x - of_int n * ?q\<bar> / ?q"
    using q by (simp add: abs_mult)
  also have "\<dots> < (?q / 2) / ?q"
    using n q unfolding half by (intro divide_strict_right_mono) simp_all
  finally have "\<bar>x / ?q - of_int n\<bar> < 1 / 2"
    using q by simp
  then have "round_ties_even (x / ?q) = n"
    by (rule round_ties_even_eqI)
  then have "rd64 x = y"
    using x0 by (simp add: rd64_def ulp64_def ex y)
  then show ?thesis
    using fin by (simp add: round64_def)
qed

lemma round64_tieI:
  assumes lo: "2 powi e \<le> \<bar>x\<bar>" and hi: "\<bar>x\<bar> < 2 powi (e + 1)"
    and e: "- 1022 \<le> e" "e \<le> 1023"
    and n: "x = (of_int m + 1 / 2) * 2 powi (e - 52)"
    and y: "y = of_int (if even m then m else m + 1) * 2 powi (e - 52)"
    and fin: "\<bar>y\<bar> < 2 ^ 1024"
  shows "round64 x = Fin y"
proof -
  let ?q = "(2::real) powi (e - 52)"
  have q: "0 < ?q" by simp
  have ex: "exponent64 x = e"
    using lo hi e by (intro exponent64_eqI) simp_all
  have x0: "x \<noteq> 0"
  proof
    assume "x = 0"
    with lo have "(2::real) powi e \<le> 0" by simp
    moreover have "0 < (2::real) powi e" by simp
    ultimately show False by linarith
  qed
  have "x / ?q = of_int m + 1 / 2"
    using q by (simp add: n)
  then have "round_ties_even (x / ?q) = (if even m then m else m + 1)"
    by (rule round_ties_even_tie)
  then have "rd64 x = y"
    using x0 by (simp add: rd64_def ulp64_def ex y)
  then show ?thesis
    using fin by (simp add: round64_def)
qed

lemma round64_0: "round64 0 = Fin 0"
  by (simp add: round64_def rd64_def)


lemma round_ties_even_ge_floor: "\<lfloor>x\<rfloor> \<le> round_ties_even x"
  by (simp add: round_ties_even_def Let_def)



section \<open>The forward calculator at the contract value zero\<close>

lemma js_mul_zero_left:
  assumes "near t m (Fin R)"
  shows "js_mul (Fin 0) m = Fin 0"
proof -
  from assms obtain x where "m = Fin x" by (rule near_FinE)
  then show ?thesis by (simp add: round64_0)
qed

lemma rate_constants_near:
  "near u64 IBC_PERCENTAGE (Fin 0.40)"
  "near u64 HEALTH_RATE (Fin 0.125)"
  "near u64 PENSION_RATE (Fin 0.16)"
  "near u64 VACATION_PROVISION_RATE (Fin 0.0417)"
  "near u64 SEVERANCE_PROVISION_RATE (Fin 0.0933)"
  unfolding IBC_PERCENTAGE_def HEALTH_RATE_def PENSION_RATE_def
    VACATION_PROVISION_RATE_def SEVERANCE_PROVISION_RATE_def
  by (rule rate_near, simp)+

lemma ARL_rate_near:
  "near u64 (to_number (get_property ARL_RATES (RiskLevel_value r))) (Fin (rateFor r))"
proof -
  have "\<bar>rateFor r\<bar> \<le> 1" using rateFor_bounds [of r] by simp
  from rate_near [OF this] show ?thesis by (simp add: get_ARL_RATES)
qed

lemma results_zero:
  assumes "0 \<le> p" and "p \<le> 20"
  shows "results (Fin 0) (RiskLevel_value r) (Fin p) =
    \<lparr>contractValue = Fin 0, ibc = Fin 0, health = Fin 0, pension = Fin 0, arl = Fin 0,
     vacationProvision = Fin 0, severanceProvision = Fin 0,
     contractualRiskProvision = Fin 0, totalSocialSecurity = Fin 0,
     totalProvisions = Fin 0, totalCosts = Fin 0, netIncome = Fin 0,
     nonDisposablePercent = Fin 0\<rparr>"
proof -
  let ?res = "results (Fin 0) (RiskLevel_value r) (Fin p)"
  have ibc: "ibc ?res = Fin 0"
    by (simp only: results_fields(2) js_mul_zero_left [OF rate_constants_near(1)])
  have health: "health ?res = Fin 0"
    by (simp only: results_fields(3) ibc js_mul_zero_left [OF rate_constants_near(2)])
  have pension: "pension ?res = Fin 0"
    by (simp only: results_fields(4) ibc js_mul_zero_left [OF rate_constants_near(3)])
  have arl: "arl ?res = Fin 0"
    by (simp only: results_fields(5) ibc js_mul_zero_left [OF ARL_rate_near])
  have vac: "vacationProvision ?res = Fin 0"
    by (simp only: results_fields(6) js_mul_zero_left [OF rate_constants_near(4)])
  have sev: "severanceProvision ?res = Fin 0"
    by (simp only: results_fields(7) js_mul_zero_left [OF rate_constants_near(5)])
  have crp: "contractualRiskProvision ?res = Fin 0"
    by (simp only: results_fields(8) js_mul_zero_left [OF percent_rate_near [OF assms]])
  have tss: "totalSocialSecurity ?res = Fin 0"
    by (simp only: results_fields(9) health pension arl) (simp add: round64_0)
  have tp: "totalProvisions ?res = Fin 0"
    by (simp only: results_fields(10) vac sev crp) (simp add: round64_0)
  have tc: "totalCosts ?res = Fin 0"
    by (simp only: results_fields(11) tss tp) (simp add: round64_0)
  have ni: "netIncome ?res = Fin 0"
    by (simp only: results_fields(12) tc) (simp add: js_sub_def round64_0)
  have ndp: "nonDisposablePercent ?res = Fin 0"
    by (simp add: results_fields(13))
  have cv: "contractValue ?res = Fin 0"
    by (simp add: results_fields(1))
  show ?thesis
    using cv ibc health pension arl vac sev crp tss tp tc ni ndp
    by (cases ?res) simp
qed

section \<open>The input handlers\<close>

lemma parseInputValue_nonneg: "nonneg (parseInputValue s)"
  by (simp add: parseInputValue_def parseInt10_def Let_def round64_nonneg)

lemma handleRiskChange_range: "near 10 (handleRiskChange val) (Fin 10)"
proof (cases val)
  case (Fin x)
  then show ?thesis
    by (simp add: handleRiskChange_def Let_def abs_le_iff)
qed (simp_all add: handleRiskChange_def Let_def)

lemma near_percent: "near 10 (Fin x) (Fin 10) \<longleftrightarrow> 0 \<le> x \<and> x \<le> 20"
  by (auto simp: abs_le_iff)

lemma handle_valid:
  assumes "valid_state st"
  shows "valid_state (handle st ev)"
proof (cases ev)
  case (RiskLevelChoice level)
  then show ?thesis
    using assms by (cases level) (simp_all add: valid_state_def)
qed (use assms in \<open>simp_all add: valid_state_def parseInputValue_nonneg handleRiskChange_range\<close>)

lemma run_valid: "valid_state (run evs)"
proof -
  have "valid_state st \<Longrightarrow> valid_state (foldl handle st evs)" for st
    by (induction evs arbitrary: st) (simp_all add: handle_valid)
  moreover have "valid_state initial_state"
    by (simp add: valid_state_def initial_state_def)
  ultimately show ?thesis
    by (simp add: run_def)
qed

text \<open>A result that is not positive rounds to a number that is not positive.\<close>

lemma round_ties_even_nonpos: "x \<le> 0 \<Longrightarrow> round_ties_even x \<le> 0"
proof -
  assume x: "x \<le> 0"
  have fl: "\<lfloor>x\<rfloor> \<le> 0" using x by simp
  show ?thesis
  proof (cases "\<lfloor>x\<rfloor> = 0")
    case True
    then have "x = 0" using x by linarith
    then show ?thesis by (simp add: round_ties_even_def)
  next
    case False
    with fl have "\<lfloor>x\<rfloor> + 1 \<le> 0" by linarith
    then show ?thesis using fl by (simp add: round_ties_even_def Let_def)
  qed
qed

lemma rd64_nonpos: "x \<le> 0 \<Longrightarrow> rd64 x \<le> 0"
proof -
  assume x: "x \<le> 0"
  have "x / ulp64 x \<le> 0"
    using x ulp64_pos [of x] by (simp add: divide_nonpos_pos)
  then have "round_ties_even (x / ulp64 x) \<le> 0"
    by (rule round_ties_even_nonpos)
  then have "of_int (round_ties_even (x / ulp64 x)) * ulp64 x \<le> 0"
    using ulp64_pos [of x] by (simp add: mult_le_0_iff)
  then show ?thesis by (simp add: rd64_def)
qed

lemma round64_nonpos: "x \<le> 0 \<Longrightarrow> nonneg (js_neg (round64 x))"
  using rd64_nonpos [of x] by (cases "x = 0") (simp_all add: round64_def inf_of_sign_def rd64_def)


section \<open>The simulator on any current result\<close>









section \<open>The specification's algorithm, field by field\<close>

lemma spec_compute_fields:
  "contractValue (spec_compute cv r p) = Fin cv"
  "ibc (spec_compute cv r p) = Fin (cv * 0.40)"
  "health (spec_compute cv r p) = Fin (cv * 0.40 * 0.125)"
  "pension (spec_compute cv r p) = Fin (cv * 0.40 * 0.16)"
  "arl (spec_compute cv r p) = Fin (cv * 0.40 * rateFor r)"
  "vacationProvision (spec_compute cv r p) = Fin (cv * 0.0417)"
  "severanceProvision (spec_compute cv r p) = Fin (cv * 0.0933)"
  "contractualRiskProvision (spec_compute cv r p) = Fin (cv * (p / 100))"
  "totalSocialSecurity (spec_compute cv r p) =
     Fin (cv * 0.40 * 0.125 + cv * 0.40 * 0.16 + cv * 0.40 * rateFor r)"
  "totalProvisions (spec_compute cv r p) = Fin (cv * 0.0417 + cv * 0.0933 + cv * (p / 100))"
  "totalCosts (spec_compute cv r p) = Fin (cv * cost_rate r p)"
  "netIncome (spec_compute cv r p) = Fin (cv - cv * cost_rate r p)"
  by (simp_all add: spec_compute_def Let_def cost_rate_def algebra_simps)

lemma spec_compute_percent:
  "0 < cv \<Longrightarrow> nonDisposablePercent (spec_compute cv r p) = Fin (cost_rate r p * 100)"
  by (simp add: spec_compute_def Let_def cost_rate_def field_simps)

lemma spec_compute_zero:
  "spec_compute 0 r p =
    \<lparr>contractValue = Fin 0, ibc = Fin 0, health = Fin 0, pension = Fin 0, arl = Fin 0,
     vacationProvision = Fin 0, severanceProvision = Fin 0,
     contractualRiskProvision = Fin 0, totalSocialSecurity = Fin 0,
     totalProvisions = Fin 0, totalCosts = Fin 0, netIncome = Fin 0,
     nonDisposablePercent = Fin 0\<rparr>"
  by (simp add: spec_compute_def Let_def)

lemma tolerance_u64:
  assumes "0 \<le> s" and "k \<le> 9000"
  shows "k * (u64 * s) \<le> s / 10 ^ 12"
proof -
  have "k * (u64 * s) \<le> 9000 * (u64 * s)"
    using assms u64_bounds(1) by (intro mult_right_mono) simp_all
  also have "\<dots> \<le> s / 10 ^ 12"
    using assms(1) by (simp add: u64_def)
  finally show ?thesis .
qed

lemma results_near_spec_normal:
  fixes cv p :: real
  assumes cv: "tiny64 \<le> cv" "cv \<le> 2 ^ 1020" and p: "0 \<le> p" "p \<le> 20"
  shows "results_near (cv / 10 ^ 12) (1 / 10 ^ 12)
           (results (Fin cv) (RiskLevel_value r) (Fin p)) (spec_compute cv r p)"
proof -
  have cv0: "0 < cv" using cv(1) tiny64_bounds(1) by linarith
  then have s: "0 \<le> cv" by simp
  note e = results_error [OF cv p, of r]
  have t: "k \<le> 9000 \<Longrightarrow> near (k * (u64 * cv)) a b \<Longrightarrow> near (cv / 10 ^ 12) a b" for k a b
    using tolerance_u64 [OF s] near_mono by blast
  have "near (8800 * (u64 * 1)) (nonDisposablePercent (results (Fin cv) (RiskLevel_value r) (Fin p)))
          (Fin (cost_rate r p * 100))"
    using nonDisposablePercent_error [OF cv p, of r] by simp
  then have pc: "near (1 / 10 ^ 12) (nonDisposablePercent (results (Fin cv) (RiskLevel_value r) (Fin p)))
          (Fin (cost_rate r p * 100))"
    using tolerance_u64 [of 1 8800] near_mono by fastforce
  have c: "near (cv / 10 ^ 12) (Fin cv) (Fin cv)"
    using s by simp
  show ?thesis
    unfolding results_near_def spec_compute_fields spec_compute_percent [OF cv0] results_fields(1)
    using c pc t [OF _ e(1)] t [OF _ e(2)] t [OF _ e(3)] t [OF _ e(4)] t [OF _ e(5)]
      t [OF _ e(6)] t [OF _ e(7)] t [OF _ e(8)] t [OF _ e(9)] t [OF _ e(10)] t [OF _ e(11)]
    by simp
qed

section \<open>The forward calculator at given inputs\<close>

text \<open>
  The records that \<open>results\<close> returns at the inputs used below, each rounding with its
  certificate.
\<close>

lemma results_5000000_V_0:
  "results (Fin 5000000) (RiskLevel_value V) (Fin 0) =
     \<lparr>contractValue = Fin 5000000,
      ibc = Fin 2000000,
      health = Fin 250000,
      pension = Fin 320000,
      arl = Fin 139200,
      vacationProvision = Fin 208500,
      severanceProvision = Fin (8014408974335999 / 17179869184),
      contractualRiskProvision = Fin 0,
      totalSocialSecurity = Fin 709200,
      totalProvisions = Fin 675000,
      totalCosts = Fin 1384200,
      netIncome = Fin 3615800,
      nonDisposablePercent = Fin (974044156907225 / 35184372088832)\<rparr>"
proof -
  have r1: "round64 (2 / 5) = Fin (3602879701896397 / 9007199254740992)"
    by (rule round64_eqI [where e = "(- 2)" and n = "7205759403792794"]) simp_all
  have r2: "round64 (1 / 8) = Fin (1 / 8)"
    by (rule round64_eqI [where e = "(- 3)" and n = "4503599627370496"]) simp_all
  have r3: "round64 (4 / 25) = Fin (5764607523034235 / 36028797018963968)"
    by (rule round64_eqI [where e = "(- 3)" and n = "5764607523034235"]) simp_all
  have r4: "round64 (417 / 10000) = Fin (3004801671381595 / 72057594037927936)"
    by (rule round64_eqI [where e = "(- 5)" and n = "6009603342763190"]) simp_all
  have r5: "round64 (933 / 10000) = Fin (1680743380934669 / 18014398509481984)"
    by (rule round64_eqI [where e = "(- 4)" and n = "6722973523738676"]) simp_all
  have r6: "round64 (87 / 1250) = Fin (626901068129973 / 9007199254740992)"
    by (rule round64_eqI [where e = "(- 4)" and n = "5015208545039784"]) simp_all
  have r7: "round64 (281474976710656015625 / 140737488355328) = Fin 2000000"
    by (rule round64_eqI [where e = "20" and n = "8589934592000000"]) simp_all
  have r8: "round64 250000 = Fin 250000"
    by (rule round64_eqI [where e = "17" and n = "8589934592000000"]) simp_all
  have r9: "round64 (90071992547409921875 / 281474976710656) = Fin 320000"
    by (rule round64_eqI [where e = "18" and n = "5497558138880000"]) simp_all
  have r10: "round64 (9795329189530828125 / 70368744177664) = Fin 139200"
    by (rule round64_eqI [where e = "17" and n = "4782875580825600"]) simp_all
  have r11: "round64 (234750130576687109375 / 1125899906842624) = Fin 208500"
    by (rule round64_eqI [where e = "17" and n = "7164005449728000"]) simp_all
  have r12: "round64 (131308076635521015625 / 281474976710656) = Fin (8014408974335999 / 17179869184)"
    by (rule round64_eqI [where e = "18" and n = "8014408974335999"]) simp_all
  have r13: "round64 0 = Fin 0"
    by (rule round64_0)
  have r14: "round64 570000 = Fin 570000"
    by (rule round64_eqI [where e = "19" and n = "4896262717440000"]) simp_all
  have r15: "round64 709200 = Fin 709200"
    by (rule round64_eqI [where e = "19" and n = "6091981612646400"]) simp_all
  have r16: "round64 (11596411699199999 / 17179869184) = Fin 675000"
    by (rule round64_tieI [where e = "19" and m = "5798205849599999"]) simp_all
  have r17: "round64 675000 = Fin 675000"
    by (rule round64_eqI [where e = "19" and n = "5798205849600000"]) simp_all
  have r18: "round64 1384200 = Fin 1384200"
    by (rule round64_eqI [where e = "20" and n = "5945093731123200"]) simp_all
  have r19: "round64 3615800 = Fin 3615800"
    by (rule round64_eqI [where e = "21" and n = "7764871374438400"]) simp_all
  have r20: "round64 (6921 / 25000) = Fin (38961766276289 / 140737488355328)"
    by (rule round64_eqI [where e = "(- 2)" and n = "4987106083364992"]) simp_all
  have r21: "round64 (974044156907225 / 35184372088832) = Fin (974044156907225 / 35184372088832)"
    by (rule round64_eqI [where e = "4" and n = "7792353255257800"]) simp_all
  show ?thesis
    by (simp add: results_def simulatorResults_def costFactor_def factorRemainder_def Let_def
      js_sub_def get_property_def ARL_RATES_def IBC_PERCENTAGE_def HEALTH_RATE_def PENSION_RATE_def
      VACATION_PROVISION_RATE_def SEVERANCE_PROVISION_RATE_def
      r1 r2 r3 r4 r5 r6 r7 r8 r9 r10 r11 r12 r13 r14 r15 r16 r17 r18 r19 r20 r21)
qed

lemma results_3200000_I_10:
  "results (Fin 3200000) (RiskLevel_value I) (Fin 10) =
     \<lparr>contractValue = Fin 3200000,
      ibc = Fin 1280000,
      health = Fin 160000,
      pension = Fin 204800,
      arl = Fin (7346496892148121 / 1099511627776),
      vacationProvision = Fin 133440,
      severanceProvision = Fin 298560,
      contractualRiskProvision = Fin 320000,
      totalSocialSecurity = Fin (3191002646131507 / 8589934592),
      totalProvisions = Fin 752000,
      totalCosts = Fin (2412658364828877 / 2147483648),
      netIncome = Fin (4459289308771123 / 2147483648),
      nonDisposablePercent = Fin (1235281082792385 / 35184372088832)\<rparr>"
proof -
  have r1: "round64 (2 / 5) = Fin (3602879701896397 / 9007199254740992)"
    by (rule round64_eqI [where e = "(- 2)" and n = "7205759403792794"]) simp_all
  have r2: "round64 (1 / 8) = Fin (1 / 8)"
    by (rule round64_eqI [where e = "(- 3)" and n = "4503599627370496"]) simp_all
  have r3: "round64 (4 / 25) = Fin (5764607523034235 / 36028797018963968)"
    by (rule round64_eqI [where e = "(- 3)" and n = "5764607523034235"]) simp_all
  have r4: "round64 (417 / 10000) = Fin (3004801671381595 / 72057594037927936)"
    by (rule round64_eqI [where e = "(- 5)" and n = "6009603342763190"]) simp_all
  have r5: "round64 (933 / 10000) = Fin (1680743380934669 / 18014398509481984)"
    by (rule round64_eqI [where e = "(- 4)" and n = "6722973523738676"]) simp_all
  have r6: "round64 (261 / 50000) = Fin (6018250254047741 / 1152921504606846976)"
    by (rule round64_eqI [where e = "(- 8)" and n = "6018250254047741"]) simp_all
  have r7: "round64 (11258999068426240625 / 8796093022208) = Fin 1280000"
    by (rule round64_eqI [where e = "20" and n = "5497558138880000"]) simp_all
  have r8: "round64 160000 = Fin 160000"
    by (rule round64_eqI [where e = "17" and n = "5497558138880000"]) simp_all
  have r9: "round64 (3602879701896396875 / 17592186044416) = Fin 204800"
    by (rule round64_eqI [where e = "17" and n = "7036874417766400"]) simp_all
  have r10: "round64 (3761406408779838125 / 562949953421312) = Fin (7346496892148121 / 1099511627776)"
    by (rule round64_eqI [where e = "12" and n = "7346496892148121"]) simp_all
  have r11: "round64 (9390005223067484375 / 70368744177664) = Fin 133440"
    by (rule round64_eqI [where e = "17" and n = "4584963487825920"]) simp_all
  have r12: "round64 (5252323065420840625 / 17592186044416) = Fin 298560"
    by (rule round64_eqI [where e = "18" and n = "5129221743575040"]) simp_all
  have r13: "round64 (1 / 10) = Fin (3602879701896397 / 36028797018963968)"
    by (rule round64_eqI [where e = "(- 4)" and n = "7205759403792794"]) simp_all
  have r14: "round64 (11258999068426240625 / 35184372088832) = Fin 320000"
    by (rule round64_eqI [where e = "18" and n = "5497558138880000"]) simp_all
  have r15: "round64 364800 = Fin 364800"
    by (rule round64_eqI [where e = "18" and n = "6267216278323200"]) simp_all
  have r16: "round64 (408448338704832921 / 1099511627776) = Fin (3191002646131507 / 8589934592)"
    by (rule round64_eqI [where e = "18" and n = "6382005292263014"]) simp_all
  have r17: "round64 432000 = Fin 432000"
    by (rule round64_eqI [where e = "18" and n = "7421703487488000"]) simp_all
  have r18: "round64 752000 = Fin 752000"
    by (rule round64_eqI [where e = "19" and n = "6459630813184000"]) simp_all
  have r19: "round64 (9650633459315507 / 8589934592) = Fin (2412658364828877 / 2147483648)"
    by (rule round64_tieI [where e = "20" and m = "4825316729657753"]) simp_all
  have r20: "round64 (4459289308771123 / 2147483648) = Fin (4459289308771123 / 2147483648)"
    by (rule round64_eqI [where e = "20" and n = "8918578617542246"]) simp_all
  have r21: "round64 (2412658364828877 / 6871947673600000) = Fin (6324639143897011 / 18014398509481984)"
    by (rule round64_eqI [where e = "(- 2)" and n = "6324639143897011"]) simp_all
  have r22: "round64 (158115978597425275 / 4503599627370496) = Fin (1235281082792385 / 35184372088832)"
    by (rule round64_eqI [where e = "5" and n = "4941124331169540"]) simp_all
  show ?thesis
    by (simp add: results_def simulatorResults_def costFactor_def factorRemainder_def Let_def
      js_sub_def get_property_def ARL_RATES_def IBC_PERCENTAGE_def HEALTH_RATE_def PENSION_RATE_def
      VACATION_PROVISION_RATE_def SEVERANCE_PROVISION_RATE_def
      r1 r2 r3 r4 r5 r6 r7 r8 r9 r10 r11 r12 r13 r14 r15 r16 r17 r18 r19 r20 r21 r22)
qed

lemma results_1000000_I_10:
  "results (Fin 1000000) (RiskLevel_value I) (Fin 10) =
     \<lparr>contractValue = Fin 1000000,
      ibc = Fin 400000,
      health = Fin 50000,
      pension = Fin 64000,
      arl = Fin 2088,
      vacationProvision = Fin 41700,
      severanceProvision = Fin 93300,
      contractualRiskProvision = Fin 100000,
      totalSocialSecurity = Fin 116088,
      totalProvisions = Fin 235000,
      totalCosts = Fin 351088,
      netIncome = Fin 648912,
      nonDisposablePercent = Fin (1235281082792385 / 35184372088832)\<rparr>"
proof -
  have r1: "round64 (2 / 5) = Fin (3602879701896397 / 9007199254740992)"
    by (rule round64_eqI [where e = "(- 2)" and n = "7205759403792794"]) simp_all
  have r2: "round64 (1 / 8) = Fin (1 / 8)"
    by (rule round64_eqI [where e = "(- 3)" and n = "4503599627370496"]) simp_all
  have r3: "round64 (4 / 25) = Fin (5764607523034235 / 36028797018963968)"
    by (rule round64_eqI [where e = "(- 3)" and n = "5764607523034235"]) simp_all
  have r4: "round64 (417 / 10000) = Fin (3004801671381595 / 72057594037927936)"
    by (rule round64_eqI [where e = "(- 5)" and n = "6009603342763190"]) simp_all
  have r5: "round64 (933 / 10000) = Fin (1680743380934669 / 18014398509481984)"
    by (rule round64_eqI [where e = "(- 4)" and n = "6722973523738676"]) simp_all
  have r6: "round64 (261 / 50000) = Fin (6018250254047741 / 1152921504606846976)"
    by (rule round64_eqI [where e = "(- 8)" and n = "6018250254047741"]) simp_all
  have r7: "round64 (56294995342131203125 / 140737488355328) = Fin 400000"
    by (rule round64_eqI [where e = "18" and n = "6871947673600000"]) simp_all
  have r8: "round64 50000 = Fin 50000"
    by (rule round64_eqI [where e = "15" and n = "6871947673600000"]) simp_all
  have r9: "round64 (18014398509481984375 / 281474976710656) = Fin 64000"
    by (rule round64_eqI [where e = "15" and n = "8796093022208000"]) simp_all
  have r10: "round64 (18807032043899190625 / 9007199254740992) = Fin 2088"
    by (rule round64_eqI [where e = "11" and n = "4591560557592576"]) simp_all
  have r11: "round64 (46950026115337421875 / 1125899906842624) = Fin 41700"
    by (rule round64_eqI [where e = "15" and n = "5731204359782400"]) simp_all
  have r12: "round64 (26261615327104203125 / 281474976710656) = Fin 93300"
    by (rule round64_eqI [where e = "16" and n = "6411527179468800"]) simp_all
  have r13: "round64 (1 / 10) = Fin (3602879701896397 / 36028797018963968)"
    by (rule round64_eqI [where e = "(- 4)" and n = "7205759403792794"]) simp_all
  have r14: "round64 (56294995342131203125 / 562949953421312) = Fin 100000"
    by (rule round64_eqI [where e = "16" and n = "6871947673600000"]) simp_all
  have r15: "round64 114000 = Fin 114000"
    by (rule round64_eqI [where e = "16" and n = "7834020347904000"]) simp_all
  have r16: "round64 116088 = Fin 116088"
    by (rule round64_eqI [where e = "16" and n = "7977506615328768"]) simp_all
  have r17: "round64 135000 = Fin 135000"
    by (rule round64_eqI [where e = "17" and n = "4638564679680000"]) simp_all
  have r18: "round64 235000 = Fin 235000"
    by (rule round64_eqI [where e = "17" and n = "8074538516480000"]) simp_all
  have r19: "round64 351088 = Fin 351088"
    by (rule round64_eqI [where e = "18" and n = "6031645912072192"]) simp_all
  have r20: "round64 648912 = Fin 648912"
    by (rule round64_eqI [where e = "19" and n = "5574111635963904"]) simp_all
  have r21: "round64 (21943 / 62500) = Fin (6324639143897011 / 18014398509481984)"
    by (rule round64_eqI [where e = "(- 2)" and n = "6324639143897011"]) simp_all
  have r22: "round64 (158115978597425275 / 4503599627370496) = Fin (1235281082792385 / 35184372088832)"
    by (rule round64_eqI [where e = "5" and n = "4941124331169540"]) simp_all
  show ?thesis
    by (simp add: results_def simulatorResults_def costFactor_def factorRemainder_def Let_def
      js_sub_def get_property_def ARL_RATES_def IBC_PERCENTAGE_def HEALTH_RATE_def PENSION_RATE_def
      VACATION_PROVISION_RATE_def SEVERANCE_PROVISION_RATE_def
      r1 r2 r3 r4 r5 r6 r7 r8 r9 r10 r11 r12 r13 r14 r15 r16 r17 r18 r19 r20 r21 r22)
qed

lemma results_9007199254740991_I_5:
  "results (Fin 9007199254740991) (RiskLevel_value I) (Fin 5) =
     \<lparr>contractValue = Fin 9007199254740991,
      ibc = Fin (7205759403792793 / 2),
      health = Fin (7205759403792793 / 16),
      pension = Fin (1152921504606847 / 2),
      arl = Fin (300912512702387 / 16),
      vacationProvision = Fin (6009603342763189 / 16),
      severanceProvision = Fin (6722973523738675 / 8),
      contractualRiskProvision = Fin (7205759403792793 / 16),
      totalSocialSecurity = Fin (4182510988337489 / 4),
      totalProvisions = Fin (6665327448508333 / 4),
      totalCosts = Fin (5423919218422911 / 2),
      netIncome = Fin 6295239645529536,
      nonDisposablePercent = Fin (1059359222348225 / 35184372088832)\<rparr>"
proof -
  have r1: "round64 (2 / 5) = Fin (3602879701896397 / 9007199254740992)"
    by (rule round64_eqI [where e = "(- 2)" and n = "7205759403792794"]) simp_all
  have r2: "round64 (1 / 8) = Fin (1 / 8)"
    by (rule round64_eqI [where e = "(- 3)" and n = "4503599627370496"]) simp_all
  have r3: "round64 (4 / 25) = Fin (5764607523034235 / 36028797018963968)"
    by (rule round64_eqI [where e = "(- 3)" and n = "5764607523034235"]) simp_all
  have r4: "round64 (417 / 10000) = Fin (3004801671381595 / 72057594037927936)"
    by (rule round64_eqI [where e = "(- 5)" and n = "6009603342763190"]) simp_all
  have r5: "round64 (933 / 10000) = Fin (1680743380934669 / 18014398509481984)"
    by (rule round64_eqI [where e = "(- 4)" and n = "6722973523738676"]) simp_all
  have r6: "round64 (261 / 50000) = Fin (6018250254047741 / 1152921504606846976)"
    by (rule round64_eqI [where e = "(- 8)" and n = "6018250254047741"]) simp_all
  have r7: "round64 (32451855365842670876875751109427 / 9007199254740992) = Fin (7205759403792793 / 2)"
    by (rule round64_eqI [where e = "51" and n = "7205759403792793"]) simp_all
  have r8: "round64 (7205759403792793 / 16) = Fin (7205759403792793 / 16)"
    by (rule round64_eqI [where e = "48" and n = "7205759403792793"]) simp_all
  have r9: "round64 (41538374868278618434170585268355 / 72057594037927936) = Fin (1152921504606847 / 2)"
    by (rule round64_eqI [where e = "49" and n = "4611686018427388"]) simp_all
  have r10: "round64 (43366063362482875195315893730613 / 2305843009213693952) = Fin (300912512702387 / 16)"
    by (rule round64_eqI [where e = "44" and n = "4814600203238192"]) simp_all
  have r11: "round64 (27064847375112786628608849460645 / 72057594037927936) = Fin (6009603342763189 / 16)"
    by (rule round64_eqI [where e = "48" and n = "6009603342763189"]) simp_all
  have r12: "round64 (15138790528165604158119087316979 / 18014398509481984) = Fin (6722973523738675 / 8)"
    by (rule round64_eqI [where e = "49" and n = "6722973523738675"]) simp_all
  have r13: "round64 (1 / 20) = Fin (3602879701896397 / 72057594037927936)"
    by (rule round64_eqI [where e = "(- 5)" and n = "7205759403792794"]) simp_all
  have r14: "round64 (32451855365842670876875751109427 / 72057594037927936) = Fin (7205759403792793 / 16)"
    by (rule round64_eqI [where e = "48" and n = "7205759403792793"]) simp_all
  have r15: "round64 (16429131440647569 / 16) = Fin 1026820715040473"
    by (rule round64_tieI [where e = "49" and m = "8214565720323784"]) simp_all
  have r16: "round64 (16730043953349955 / 16) = Fin (4182510988337489 / 4)"
    by (rule round64_tieI [where e = "49" and m = "8365021976674977"]) simp_all
  have r17: "round64 (19455550390240539 / 16) = Fin (4863887597560135 / 4)"
    by (rule round64_eqI [where e = "50" and n = "4863887597560135"]) simp_all
  have r18: "round64 (26661309794033333 / 16) = Fin (6665327448508333 / 4)"
    by (rule round64_eqI [where e = "50" and n = "6665327448508333"]) simp_all
  have r19: "round64 (5423919218422911 / 2) = Fin (5423919218422911 / 2)"
    by (rule round64_eqI [where e = "51" and n = "5423919218422911"]) simp_all
  have r20: "round64 (12590479291059071 / 2) = Fin 6295239645529536"
    by (rule round64_tieI [where e = "52" and m = "6295239645529535"]) simp_all
  have r21: "round64 (5423919218422911 / 18014398509481982) = Fin (42374368893929 / 140737488355328)"
    by (rule round64_eqI [where e = "(- 2)" and n = "5423919218422912"]) simp_all
  have r22: "round64 (1059359222348225 / 35184372088832) = Fin (1059359222348225 / 35184372088832)"
    by (rule round64_eqI [where e = "4" and n = "8474873778785800"]) simp_all
  show ?thesis
    by (simp add: results_def simulatorResults_def costFactor_def factorRemainder_def Let_def
      js_sub_def get_property_def ARL_RATES_def IBC_PERCENTAGE_def HEALTH_RATE_def PENSION_RATE_def
      VACATION_PROVISION_RATE_def SEVERANCE_PROVISION_RATE_def
      r1 r2 r3 r4 r5 r6 r7 r8 r9 r10 r11 r12 r13 r14 r15 r16 r17 r18 r19 r20 r21 r22)
qed


lemma results_4503599627370499_II_0:
  "results (Fin 4503599627370499) (RiskLevel_value II) (Fin 0) =
     \<lparr>contractValue = Fin 4503599627370499,
      ibc = Fin (7205759403792799 / 4),
      health = Fin (7205759403792799 / 32),
      pension = Fin (4611686018427391 / 16),
      arl = Fin (1203650050809549 / 64),
      vacationProvision = Fin (3004801671381597 / 16),
      severanceProvision = Fin (840371690467335 / 2),
      contractualRiskProvision = Fin 0,
      totalSocialSecurity = Fin (8515478233026177 / 16),
      totalProvisions = Fin (2431943798780069 / 4),
      totalCosts = Fin (4560813357036613 / 4),
      netIncome = Fin 3363396288111346,
      nonDisposablePercent = Fin (7126270870369703 / 281474976710656)\<rparr>"
proof -
  have r1: "round64 (2 / 5) = Fin (3602879701896397 / 9007199254740992)"
    by (rule round64_eqI [where e = "(- 2)" and n = "7205759403792794"]) simp_all
  have r2: "round64 (1 / 8) = Fin (1 / 8)"
    by (rule round64_eqI [where e = "(- 3)" and n = "4503599627370496"]) simp_all
  have r3: "round64 (4 / 25) = Fin (5764607523034235 / 36028797018963968)"
    by (rule round64_eqI [where e = "(- 3)" and n = "5764607523034235"]) simp_all
  have r4: "round64 (417 / 10000) = Fin (3004801671381595 / 72057594037927936)"
    by (rule round64_eqI [where e = "(- 5)" and n = "6009603342763190"]) simp_all
  have r5: "round64 (933 / 10000) = Fin (1680743380934669 / 18014398509481984)"
    by (rule round64_eqI [where e = "(- 4)" and n = "6722973523738676"]) simp_all
  have r6: "round64 (261 / 25000) = Fin (6018250254047741 / 576460752303423488)"
    by (rule round64_eqI [where e = "(- 7)" and n = "6018250254047741"]) simp_all
  have r7: "round64 (16225927682921348048516832192103 / 9007199254740992) = Fin (7205759403792799 / 4)"
    by (rule round64_eqI [where e = "50" and n = "7205759403792799"]) simp_all
  have r8: "round64 (7205759403792799 / 32) = Fin (7205759403792799 / 32)"
    by (rule round64_eqI [where e = "47" and n = "7205759403792799"]) simp_all
  have r9: "round64 (41538374868278653021815723473765 / 144115188075855872) = Fin (4611686018427391 / 16)"
    by (rule round64_eqI [where e = "48" and n = "4611686018427391"]) simp_all
  have r10: "round64 (43366063362482911304817418017059 / 2305843009213693952) = Fin (1203650050809549 / 64)"
    by (rule round64_eqI [where e = "44" and n = "4814600203238196"]) simp_all
  have r11: "round64 (13532423687556403831110274565905 / 72057594037927936) = Fin (3004801671381597 / 16)"
    by (rule round64_eqI [where e = "47" and n = "6009603342763194"]) simp_all
  have r12: "round64 (7569395264082807961661376929831 / 18014398509481984) = Fin (840371690467335 / 2)"
    by (rule round64_eqI [where e = "48" and n = "6722973523738680"]) simp_all
  have r13: "round64 0 = Fin 0"
    by (rule round64_0)
  have r14: "round64 (16429131440647581 / 32) = Fin (4107282860161895 / 8)"
    by (rule round64_tieI [where e = "48" and m = "8214565720323790"]) simp_all
  have r15: "round64 (34061912932104709 / 64) = Fin (8515478233026177 / 16)"
    by (rule round64_eqI [where e = "48" and n = "8515478233026177"]) simp_all
  have r16: "round64 (9727775195120277 / 16) = Fin (2431943798780069 / 4)"
    by (rule round64_tieI [where e = "49" and m = "4863887597560138"]) simp_all
  have r17: "round64 (2431943798780069 / 4) = Fin (2431943798780069 / 4)"
    by (rule round64_eqI [where e = "49" and n = "4863887597560138"]) simp_all
  have r18: "round64 (18243253428146453 / 16) = Fin (4560813357036613 / 4)"
    by (rule round64_eqI [where e = "50" and n = "4560813357036613"]) simp_all
  have r19: "round64 (13453585152445383 / 4) = Fin 3363396288111346"
    by (rule round64_tieI [where e = "51" and m = "6726792576222691"]) simp_all
  have r20: "round64 (4560813357036613 / 18014398509481996) = Fin (2280406678518305 / 9007199254740992)"
    by (rule round64_eqI [where e = "(- 2)" and n = "4560813357036610"]) simp_all
  have r21: "round64 (57010166962957625 / 2251799813685248) = Fin (7126270870369703 / 281474976710656)"
    by (rule round64_eqI [where e = "4" and n = "7126270870369703"]) simp_all
  show ?thesis
    by (simp add: results_def simulatorResults_def costFactor_def factorRemainder_def Let_def
      js_sub_def get_property_def ARL_RATES_def IBC_PERCENTAGE_def HEALTH_RATE_def PENSION_RATE_def
      VACATION_PROVISION_RATE_def SEVERANCE_PROVISION_RATE_def
      r1 r2 r3 r4 r5 r6 r7 r8 r9 r10 r11 r12 r13 r14 r15 r16 r17 r18 r19 r20 r21)
qed

lemma results_4503599627370500_II_0:
  "results (Fin 4503599627370500) (RiskLevel_value II) (Fin 0) =
     \<lparr>contractValue = Fin 4503599627370500,
      ibc = Fin 1801439850948200,
      health = Fin 225179981368525,
      pension = Fin 288230376151712,
      arl = Fin (4814600203238197 / 256),
      vacationProvision = Fin (6009603342763195 / 32),
      severanceProvision = Fin (3361486761869341 / 8),
      contractualRiskProvision = Fin 0,
      totalSocialSecurity = Fin (8515478233026179 / 16),
      totalProvisions = Fin (1215971899390035 / 2),
      totalCosts = Fin (4560813357036615 / 4),
      netIncome = Fin 3363396288111346,
      nonDisposablePercent = Fin (7126270870369705 / 281474976710656)\<rparr>"
proof -
  have r1: "round64 (2 / 5) = Fin (3602879701896397 / 9007199254740992)"
    by (rule round64_eqI [where e = "(- 2)" and n = "7205759403792794"]) simp_all
  have r2: "round64 (1 / 8) = Fin (1 / 8)"
    by (rule round64_eqI [where e = "(- 3)" and n = "4503599627370496"]) simp_all
  have r3: "round64 (4 / 25) = Fin (5764607523034235 / 36028797018963968)"
    by (rule round64_eqI [where e = "(- 3)" and n = "5764607523034235"]) simp_all
  have r4: "round64 (417 / 10000) = Fin (3004801671381595 / 72057594037927936)"
    by (rule round64_eqI [where e = "(- 5)" and n = "6009603342763190"]) simp_all
  have r5: "round64 (933 / 10000) = Fin (1680743380934669 / 18014398509481984)"
    by (rule round64_eqI [where e = "(- 4)" and n = "6722973523738676"]) simp_all
  have r6: "round64 (261 / 25000) = Fin (6018250254047741 / 576460752303423488)"
    by (rule round64_eqI [where e = "(- 7)" and n = "6018250254047741"]) simp_all
  have r7: "round64 (4056481920730337912849133522125 / 2251799813685248) = Fin 1801439850948200"
    by (rule round64_eqI [where e = "50" and n = "7205759403792800"]) simp_all
  have r8: "round64 225179981368525 = Fin 225179981368525"
    by (rule round64_eqI [where e = "47" and n = "7205759403792800"]) simp_all
  have r9: "round64 (1298074214633708087075726453375 / 4503599627370496) = Fin 288230376151712"
    by (rule round64_eqI [where e = "48" and n = "4611686018427392"]) simp_all
  have r10: "round64 (1355189480077591166345864752025 / 72057594037927936) = Fin (4814600203238197 / 256)"
    by (rule round64_eqI [where e = "44" and n = "4814600203238197"]) simp_all
  have r11: "round64 (3383105921889101708977986486875 / 18014398509481984) = Fin (6009603342763195 / 32)"
    by (rule round64_eqI [where e = "47" and n = "6009603342763195"]) simp_all
  have r12: "round64 (1892348816020702410601189466125 / 4503599627370496) = Fin (3361486761869341 / 8)"
    by (rule round64_eqI [where e = "48" and n = "6722973523738682"]) simp_all
  have r13: "round64 0 = Fin 0"
    by (rule round64_0)
  have r14: "round64 513410357520237 = Fin 513410357520237"
    by (rule round64_eqI [where e = "48" and n = "8214565720323792"]) simp_all
  have r15: "round64 (136247651728418869 / 256) = Fin (8515478233026179 / 16)"
    by (rule round64_eqI [where e = "48" and n = "8515478233026179"]) simp_all
  have r16: "round64 (19455550390240559 / 32) = Fin (1215971899390035 / 2)"
    by (rule round64_eqI [where e = "49" and n = "4863887597560140"]) simp_all
  have r17: "round64 (1215971899390035 / 2) = Fin (1215971899390035 / 2)"
    by (rule round64_eqI [where e = "49" and n = "4863887597560140"]) simp_all
  have r18: "round64 (18243253428146459 / 16) = Fin (4560813357036615 / 4)"
    by (rule round64_eqI [where e = "50" and n = "4560813357036615"]) simp_all
  have r19: "round64 (13453585152445385 / 4) = Fin 3363396288111346"
    by (rule round64_tieI [where e = "51" and m = "6726792576222692"]) simp_all
  have r20: "round64 (912162671407323 / 3602879701896400) = Fin (4560813357036611 / 18014398509481984)"
    by (rule round64_eqI [where e = "(- 2)" and n = "4560813357036611"]) simp_all
  have r21: "round64 (114020333925915275 / 4503599627370496) = Fin (7126270870369705 / 281474976710656)"
    by (rule round64_eqI [where e = "4" and n = "7126270870369705"]) simp_all
  show ?thesis
    by (simp add: results_def simulatorResults_def costFactor_def factorRemainder_def Let_def
      js_sub_def get_property_def ARL_RATES_def IBC_PERCENTAGE_def HEALTH_RATE_def PENSION_RATE_def
      VACATION_PROVISION_RATE_def SEVERANCE_PROVISION_RATE_def
      r1 r2 r3 r4 r5 r6 r7 r8 r9 r10 r11 r12 r13 r14 r15 r16 r17 r18 r19 r20 r21)
qed

lemma results_1003000_V_20:
  "results (Fin 1003000) (RiskLevel_value V) (Fin 20) =
     \<lparr>contractValue = Fin 1003000,
      ibc = Fin 401200,
      health = Fin 50150,
      pension = Fin 64192,
      arl = Fin (3837779366054461 / 137438953472),
      vacationProvision = Fin (5748397972861747 / 137438953472),
      severanceProvision = Fin (3215380880503603 / 34359738368),
      contractualRiskProvision = Fin 200600,
      totalSocialSecurity = Fin (4888206045987471 / 34359738368),
      totalProvisions = Fin 336005,
      totalCosts = Fin (1027078121020457 / 2147483648),
      netIncome = Fin (1126847977923543 / 2147483648),
      nonDisposablePercent = Fin (6710926394735461 / 140737488355328)\<rparr>"
proof -
  have r1: "round64 (2 / 5) = Fin (3602879701896397 / 9007199254740992)"
    by (rule round64_eqI [where e = "(- 2)" and n = "7205759403792794"]) simp_all
  have r2: "round64 (1 / 8) = Fin (1 / 8)"
    by (rule round64_eqI [where e = "(- 3)" and n = "4503599627370496"]) simp_all
  have r3: "round64 (4 / 25) = Fin (5764607523034235 / 36028797018963968)"
    by (rule round64_eqI [where e = "(- 3)" and n = "5764607523034235"]) simp_all
  have r4: "round64 (417 / 10000) = Fin (3004801671381595 / 72057594037927936)"
    by (rule round64_eqI [where e = "(- 5)" and n = "6009603342763190"]) simp_all
  have r5: "round64 (933 / 10000) = Fin (1680743380934669 / 18014398509481984)"
    by (rule round64_eqI [where e = "(- 4)" and n = "6722973523738676"]) simp_all
  have r6: "round64 (87 / 1250) = Fin (626901068129973 / 9007199254740992)"
    by (rule round64_eqI [where e = "(- 4)" and n = "5015208545039784"]) simp_all
  have r7: "round64 (451711042625260773875 / 1125899906842624) = Fin 401200"
    by (rule round64_eqI [where e = "18" and n = "6892563516620800"]) simp_all
  have r8: "round64 50150 = Fin 50150"
    by (rule round64_eqI [where e = "15" and n = "6892563516620800"]) simp_all
  have r9: "round64 (144547533640083442625 / 2251799813685248) = Fin 64192"
    by (rule round64_eqI [where e = "15" and n = "8822481301274624"]) simp_all
  have r10: "round64 (15719544283359072975 / 562949953421312) = Fin (3837779366054461 / 137438953472)"
    by (rule round64_eqI [where e = "14" and n = "7675558732108922"]) simp_all
  have r11: "round64 (376727009549467473125 / 9007199254740992) = Fin (5748397972861747 / 137438953472)"
    by (rule round64_eqI [where e = "15" and n = "5748397972861747"]) simp_all
  have r12: "round64 (210723201384684125875 / 2251799813685248) = Fin (3215380880503603 / 34359738368)"
    by (rule round64_eqI [where e = "16" and n = "6430761761007206"]) simp_all
  have r13: "round64 (1 / 5) = Fin (3602879701896397 / 18014398509481984)"
    by (rule round64_eqI [where e = "(- 3)" and n = "7205759403792794"]) simp_all
  have r14: "round64 (451711042625260773875 / 2251799813685248) = Fin 200600"
    by (rule round64_eqI [where e = "17" and n = "6892563516620800"]) simp_all
  have r15: "round64 114342 = Fin 114342"
    by (rule round64_eqI [where e = "16" and n = "7857522408947712"]) simp_all
  have r16: "round64 (19552824183949885 / 137438953472) = Fin (4888206045987471 / 34359738368)"
    by (rule round64_eqI [where e = "17" and n = "4888206045987471"]) simp_all
  have r17: "round64 (18609921494876159 / 137438953472) = Fin 135405"
    by (rule round64_eqI [where e = "17" and n = "4652480373719040"]) simp_all
  have r18: "round64 336005 = Fin 336005"
    by (rule round64_eqI [where e = "18" and n = "5772521945169920"]) simp_all
  have r19: "round64 (16433249936327311 / 34359738368) = Fin (1027078121020457 / 2147483648)"
    by (rule round64_tieI [where e = "18" and m = "8216624968163655"]) simp_all
  have r20: "round64 (1126847977923543 / 2147483648) = Fin (1126847977923543 / 2147483648)"
    by (rule round64_eqI [where e = "19" and n = "4507391911694172"]) simp_all
  have r21: "round64 (1027078121020457 / 2153926098944000) = Fin (4294992892630695 / 9007199254740992)"
    by (rule round64_eqI [where e = "(- 2)" and n = "8589985785261390"]) simp_all
  have r22: "round64 (107374822315767375 / 2251799813685248) = Fin (6710926394735461 / 140737488355328)"
    by (rule round64_eqI [where e = "5" and n = "6710926394735461"]) simp_all
  show ?thesis
    by (simp add: results_def simulatorResults_def costFactor_def factorRemainder_def Let_def
      js_sub_def get_property_def ARL_RATES_def IBC_PERCENTAGE_def HEALTH_RATE_def PENSION_RATE_def
      VACATION_PROVISION_RATE_def SEVERANCE_PROVISION_RATE_def
      r1 r2 r3 r4 r5 r6 r7 r8 r9 r10 r11 r12 r13 r14 r15 r16 r17 r18 r19 r20 r21 r22)
qed

lemma results_neg1000000_I_10:
  "results (Fin (- 1000000)) (RiskLevel_value I) (Fin 10) =
     \<lparr>contractValue = Fin (- 1000000),
      ibc = Fin (- 400000),
      health = Fin (- 50000),
      pension = Fin (- 64000),
      arl = Fin (- 2088),
      vacationProvision = Fin (- 41700),
      severanceProvision = Fin (- 93300),
      contractualRiskProvision = Fin (- 100000),
      totalSocialSecurity = Fin (- 116088),
      totalProvisions = Fin (- 235000),
      totalCosts = Fin (- 351088),
      netIncome = Fin (- 648912),
      nonDisposablePercent = Fin 0\<rparr>"
proof -
  have r1: "round64 (2 / 5) = Fin (3602879701896397 / 9007199254740992)"
    by (rule round64_eqI [where e = "(- 2)" and n = "7205759403792794"]) simp_all
  have r2: "round64 (1 / 8) = Fin (1 / 8)"
    by (rule round64_eqI [where e = "(- 3)" and n = "4503599627370496"]) simp_all
  have r3: "round64 (4 / 25) = Fin (5764607523034235 / 36028797018963968)"
    by (rule round64_eqI [where e = "(- 3)" and n = "5764607523034235"]) simp_all
  have r4: "round64 (417 / 10000) = Fin (3004801671381595 / 72057594037927936)"
    by (rule round64_eqI [where e = "(- 5)" and n = "6009603342763190"]) simp_all
  have r5: "round64 (933 / 10000) = Fin (1680743380934669 / 18014398509481984)"
    by (rule round64_eqI [where e = "(- 4)" and n = "6722973523738676"]) simp_all
  have r6: "round64 (261 / 50000) = Fin (6018250254047741 / 1152921504606846976)"
    by (rule round64_eqI [where e = "(- 8)" and n = "6018250254047741"]) simp_all
  have r7: "round64 (- (56294995342131203125 / 140737488355328)) = Fin (- 400000)"
    by (rule round64_eqI [where e = "18" and n = "(- 6871947673600000)"]) simp_all
  have r8: "round64 (- 50000) = Fin (- 50000)"
    by (rule round64_eqI [where e = "15" and n = "(- 6871947673600000)"]) simp_all
  have r9: "round64 (- (18014398509481984375 / 281474976710656)) = Fin (- 64000)"
    by (rule round64_eqI [where e = "15" and n = "(- 8796093022208000)"]) simp_all
  have r10: "round64 (- (18807032043899190625 / 9007199254740992)) = Fin (- 2088)"
    by (rule round64_eqI [where e = "11" and n = "(- 4591560557592576)"]) simp_all
  have r11: "round64 (- (46950026115337421875 / 1125899906842624)) = Fin (- 41700)"
    by (rule round64_eqI [where e = "15" and n = "(- 5731204359782400)"]) simp_all
  have r12: "round64 (- (26261615327104203125 / 281474976710656)) = Fin (- 93300)"
    by (rule round64_eqI [where e = "16" and n = "(- 6411527179468800)"]) simp_all
  have r13: "round64 (1 / 10) = Fin (3602879701896397 / 36028797018963968)"
    by (rule round64_eqI [where e = "(- 4)" and n = "7205759403792794"]) simp_all
  have r14: "round64 (- (56294995342131203125 / 562949953421312)) = Fin (- 100000)"
    by (rule round64_eqI [where e = "16" and n = "(- 6871947673600000)"]) simp_all
  have r15: "round64 (- 114000) = Fin (- 114000)"
    by (rule round64_eqI [where e = "16" and n = "(- 7834020347904000)"]) simp_all
  have r16: "round64 (- 116088) = Fin (- 116088)"
    by (rule round64_eqI [where e = "16" and n = "(- 7977506615328768)"]) simp_all
  have r17: "round64 (- 135000) = Fin (- 135000)"
    by (rule round64_eqI [where e = "17" and n = "(- 4638564679680000)"]) simp_all
  have r18: "round64 (- 235000) = Fin (- 235000)"
    by (rule round64_eqI [where e = "17" and n = "(- 8074538516480000)"]) simp_all
  have r19: "round64 (- 351088) = Fin (- 351088)"
    by (rule round64_eqI [where e = "18" and n = "(- 6031645912072192)"]) simp_all
  have r20: "round64 (- 648912) = Fin (- 648912)"
    by (rule round64_eqI [where e = "19" and n = "(- 5574111635963904)"]) simp_all
  show ?thesis
    by (simp add: results_def simulatorResults_def costFactor_def factorRemainder_def Let_def
      js_sub_def get_property_def ARL_RATES_def IBC_PERCENTAGE_def HEALTH_RATE_def PENSION_RATE_def
      VACATION_PROVISION_RATE_def SEVERANCE_PROVISION_RATE_def
      r1 r2 r3 r4 r5 r6 r7 r8 r9 r10 r11 r12 r13 r14 r15 r16 r17 r18 r19 r20)
qed

section \<open>The forward calculator and the specification's algorithm\<close>

text \<open>
  C1, as the specification states it: for a contract value \<open>cv \<ge> 0\<close>, a risk level among
  the five and a percentage in \<open>[0, 20]\<close>, \<open>results\<close> returns exactly the record of the
  specification's algorithm with the statutory constants. It does not hold: the
  calculation is carried out in binary64. At the contract value 5,000,000, the risk level
  V and the percentage 0, the severance provision returned is the binary64 value just
  below 466,500, which is what the algorithm gives over the reals.
\<close>

theorem results_not_exact:
  "severanceProvision (results (Fin 5000000) (RiskLevel_value V) (Fin 0)) =
     Fin (8014408974335999 / 17179869184) \<and>
   severanceProvision (spec_compute 5000000 V 0) = Fin 466500 \<and>
   results (Fin 5000000) (RiskLevel_value V) (Fin 0) \<noteq> spec_compute 5000000 V 0"
proof -
  have c: "severanceProvision (results (Fin 5000000) (RiskLevel_value V) (Fin 0)) =
      Fin (8014408974335999 / 17179869184)"
    unfolding results_5000000_V_0 by simp
  have s: "severanceProvision (spec_compute 5000000 V 0) = Fin 466500"
    by (simp add: spec_compute_fields)
  have "results (Fin 5000000) (RiskLevel_value V) (Fin 0) \<noteq> spec_compute 5000000 V 0"
  proof
    assume "results (Fin 5000000) (RiskLevel_value V) (Fin 0) = spec_compute 5000000 V 0"
    then have "severanceProvision (results (Fin 5000000) (RiskLevel_value V) (Fin 0)) =
        severanceProvision (spec_compute 5000000 V 0)"
      by (rule arg_cong)
    then show False
      unfolding c s by simp
  qed
  with c s show ?thesis by (intro conjI)
qed

text \<open>
  C1, amended. For the contract value 0, and for every contract value from \<open>2 ^ -1022\<close>,
  the smallest normal binary64 value, to \<open>2 ^ 1000\<close>, for every risk level among the five
  and every percentage in \<open>[0, 20]\<close>: every field of the result is a finite number, the
  contract value is the input, every other amount is within \<open>cv / 10 ^ 12\<close> of the amount
  that the specification's algorithm gives over the reals with the statutory constants,
  and the percentage that is not disposable is within \<open>1 / 10 ^ 12\<close> of its.
\<close>

theorem results_near_spec:
  assumes "cv = 0 \<or> (2 powi (- 1022) \<le> cv \<and> cv \<le> 2 ^ 1000)" and "0 \<le> p" and "p \<le> 20"
  shows "results_near (cv / 10 ^ 12) (1 / 10 ^ 12)
           (results (Fin cv) (RiskLevel_value r) (Fin p)) (spec_compute cv r p)"
proof (cases "cv = 0")
  case True
  then show ?thesis
    by (simp only: results_zero [OF assms(2,3)] spec_compute_zero results_near_def) simp
next
  case False
  with assms(1) have "tiny64 \<le> cv" "cv \<le> 2 ^ 1020"
    by (simp_all add: tiny64_def order_trans [of cv "2 ^ 1000"])
  then show ?thesis
    using assms(2,3) by (rule results_near_spec_normal)
qed

theorem results_near_spec_witness:
  "((5000000::real) = 0 \<or> (2 powi (- 1022) \<le> (5000000::real) \<and> (5000000::real) \<le> 2 ^ 1000)) \<and>
   (0::real) \<le> 0 \<and> (0::real) \<le> 20 \<and>
   results_near (5000000 / 10 ^ 12) (1 / 10 ^ 12)
     (results (Fin 5000000) (RiskLevel_value V) (Fin 0)) (spec_compute 5000000 V 0) \<and>
   near (5000000 / 10 ^ 12)
     (severanceProvision (results (Fin 5000000) (RiskLevel_value V) (Fin 0)))
     (Fin 466500)"
proof -
  have h1: "(5000000::real) = 0 \<or> (2 powi (- 1022) \<le> (5000000::real) \<and> (5000000::real) \<le> 2 ^ 1000)"
    by (simp add: power_int_minus field_simps)
  have h2: "(0::real) \<le> 0" "(0::real) \<le> 20" by simp_all
  have n: "near (5000000 / 10 ^ 12)
     (severanceProvision (results (Fin 5000000) (RiskLevel_value V) (Fin 0)))
     (Fin 466500)"
    unfolding results_5000000_V_0 by simp
  from results_near_spec [OF h1 h2, of V] h1 h2 n show ?thesis
    by (intro conjI)
qed

section \<open>The inverse simulator and the specification's algorithm\<close>




section \<open>Conservation\<close>

text \<open>
  C3, as the specification states it: for every contract value \<open>cv \<ge> 0\<close> the two
  identities \<open>totalCosts = totalSocialSecurity + totalProvisions\<close> and
  \<open>netIncome + totalCosts = contractValue\<close> hold as equations. The second does not: at the
  contract value \<open>2 ^ 53 - 1\<close>, the risk level I and the percentage 5, the sum of the net
  income and the total costs is \<open>2 ^ 53\<close>.
\<close>

theorem conservation_not_exact:
  "contractValue (results (Fin 9007199254740991) (RiskLevel_value I) (Fin 5)) =
     Fin 9007199254740991 \<and>
   js_add (netIncome (results (Fin 9007199254740991) (RiskLevel_value I) (Fin 5)))
          (totalCosts (results (Fin 9007199254740991) (RiskLevel_value I) (Fin 5))) =
     Fin 9007199254740992"
proof -
  have s1: "round64 (18014398509481983 / 2) = Fin 9007199254740992"
    by (rule round64_tieI [where e = "52" and m = "9007199254740991"]) simp_all
  show ?thesis
    unfolding results_9007199254740991_I_5
    by (simp add: s1)
qed

text \<open>
  C3, amended. The result keeps the contract value, and its total costs are the sum, as
  \<open>results\<close> computes it, of the total of social security and the total of provisions.
  For the contract value 0, and
  for every contract value from \<open>2 ^ -1022\<close> to \<open>2 ^ 1000\<close>, for every risk level among the
  five and every percentage in \<open>[0, 20]\<close>, the sum of the net income and the total costs
  is a finite number within \<open>cv / 10 ^ 9\<close> of the contract value.
\<close>

theorem results_conservation:
  assumes "cv = 0 \<or> (2 powi (- 1022) \<le> cv \<and> cv \<le> 2 ^ 1000)" and "0 \<le> p" and "p \<le> 20"
  shows "(let res = results (Fin cv) (RiskLevel_value r) (Fin p)
          in contractValue res = Fin cv \<and>
             totalCosts res = js_add (totalSocialSecurity res) (totalProvisions res) \<and>
             near (cv / 10 ^ 9) (js_add (netIncome res) (totalCosts res)) (contractValue res))"
proof -
  let ?res = "results (Fin cv) (RiskLevel_value r) (Fin p)"
  have first: "totalCosts ?res = js_add (totalSocialSecurity ?res) (totalProvisions ?res)"
    by (rule results_fields)
  have second: "near (cv / 10 ^ 9) (js_add (netIncome ?res) (totalCosts ?res)) (Fin cv)"
  proof (cases "cv = 0")
    case True
    then show ?thesis
      by (simp only: results_zero [OF assms(2,3)]) (simp add: round64_0)
  next
    case False
    with assms(1) have cv: "tiny64 \<le> cv" "cv \<le> 2 ^ 1020"
      by (simp_all add: tiny64_def order_trans [of cv "2 ^ 1000"])
    have cv0: "0 < cv" using cv(1) tiny64_bounds(1) by linarith
    have K: "0 < cost_rate r p" "cost_rate r p \<le> 1"
      using cost_rate_bounds [OF assms(2,3), of r] by simp_all
    have "near (84 * (u64 * cv) + 80 * (u64 * cv) + 4 * u64 * cv)
            (js_add (netIncome ?res) (totalCosts ?res))
            (Fin ((cv - cv * cost_rate r p) + cv * cost_rate r p))"
      using results_error(11) [OF cv assms(2,3), of r] results_error(10) [OF cv assms(2,3), of r]
    proof (rule add_near)
      show "\<bar>cv - cv * cost_rate r p + cv * cost_rate r p\<bar> \<le> cv" using cv0 by simp
      show "84 * (u64 * cv) + 80 * (u64 * cv) \<le> cv" using cv0 by (simp add: u64_def)
      show "tiny64 \<le> cv" by (rule cv)
      show "4 * cv \<le> 2 ^ 1023" using cv(2) by simp
    qed
    then have "near (168 * (u64 * cv)) (js_add (netIncome ?res) (totalCosts ?res)) (Fin cv)"
      by (simp add: algebra_simps)
    moreover have "168 * (u64 * cv) \<le> cv / 10 ^ 9"
      using cv0 by (simp add: u64_def)
    ultimately show ?thesis by (rule near_mono)
  qed
  have zeroth: "contractValue ?res = Fin cv"
    by (rule results_fields(1))
  from first second show ?thesis
    unfolding Let_def zeroth by (intro conjI refl)
qed

theorem results_conservation_witness:
  "((9007199254740991::real) = 0 \<or>
    (2 powi (- 1022) \<le> (9007199254740991::real) \<and> (9007199254740991::real) \<le> 2 ^ 1000)) \<and>
   (0::real) \<le> 5 \<and> (5::real) \<le> 20 \<and>
   (let res = results (Fin 9007199254740991) (RiskLevel_value I) (Fin 5)
    in contractValue res = Fin 9007199254740991 \<and>
       totalCosts res = js_add (totalSocialSecurity res) (totalProvisions res) \<and>
       near (9007199254740991 / 10 ^ 9) (js_add (netIncome res) (totalCosts res))
         (contractValue res)) \<and>
   near (9007199254740991 / 10 ^ 9) (Fin 9007199254740992) (Fin 9007199254740991)"
proof -
  have h1: "(9007199254740991::real) = 0 \<or>
    (2 powi (- 1022) \<le> (9007199254740991::real) \<and> (9007199254740991::real) \<le> 2 ^ 1000)"
    by (simp add: power_int_minus field_simps)
  have h2: "(0::real) \<le> 5" "(5::real) \<le> 20" by simp_all
  have n: "near (9007199254740991 / 10 ^ 9) (Fin 9007199254740992) (Fin 9007199254740991)"
    by simp
  from results_conservation [OF h1 h2, of I] h1 h2 n show ?thesis
    by (intro conjI)
qed

section \<open>Round trip through the simulator\<close>




section \<open>Risk levels outside the enumeration\<close>

lemma ARL_RATES_not_own:
  assumes "k \<notin> range RiskLevel_value"
  shows "map_of ARL_RATES k = None"
proof -
  have "k \<noteq> RiskLevel_value x" for x
    using assms by blast
  from this [of I] this [of II] this [of III] this [of IV] this [of V]
  show ?thesis by (simp add: ARL_RATES_def)
qed

lemma get_ARL_RATES_other:
  assumes "k \<notin> range RiskLevel_value"
  shows "get_property ARL_RATES k = Undefined \<or> get_property ARL_RATES k = Object"
  by (simp add: get_property_def ARL_RATES_not_own [OF assms])

lemma js_mul_NaN_right: "js_mul x NaN = NaN"
  by (cases x) simp_all

lemma js_add_NaN_right: "js_add x NaN = NaN"
  by (cases x) simp_all

lemma VI_not_a_RiskLevel: "''VI'' \<notin> range RiskLevel_value"
proof
  assume "''VI'' \<in> range RiskLevel_value"
  then obtain r where "''VI'' = RiskLevel_value r" ..
  then show False by (cases r) simp_all
qed

lemma toString_not_a_RiskLevel: "''toString'' \<notin> range RiskLevel_value"
proof
  assume "''toString'' \<in> range RiskLevel_value"
  then obtain r where "''toString'' = RiskLevel_value r" ..
  then show False by (cases r) simp_all
qed

text \<open>
  C5, as the specification states it: a lookup with a risk class that is not one of the
  five levels fails with an error and produces no result. It does not hold. The string
  \<open>VI\<close> is no property of \<open>ARL_RATES\<close>; reading it gives \<open>undefined\<close>, nothing is raised,
  and \<open>results\<close> returns a record whose fields that do not depend on the rate are the
  usual numbers and whose other fields are \<open>NaN\<close>.
\<close>

theorem unknown_riskLevel_returns_record:
  "get_property ARL_RATES ''VI'' = Undefined \<and>
   results (Fin 1000000) ''VI'' (Fin 10) =
     \<lparr>contractValue = Fin 1000000,
      ibc = Fin 400000,
      health = Fin 50000,
      pension = Fin 64000,
      arl = NaN,
      vacationProvision = Fin 41700,
      severanceProvision = Fin 93300,
      contractualRiskProvision = Fin 100000,
      totalSocialSecurity = NaN,
      totalProvisions = Fin 235000,
      totalCosts = NaN,
      netIncome = NaN,
      nonDisposablePercent = NaN\<rparr>"
proof -
  have r1: "round64 (2 / 5) = Fin (3602879701896397 / 9007199254740992)"
    by (rule round64_eqI [where e = "(- 2)" and n = "7205759403792794"]) simp_all
  have r2: "round64 (1 / 8) = Fin (1 / 8)"
    by (rule round64_eqI [where e = "(- 3)" and n = "4503599627370496"]) simp_all
  have r3: "round64 (4 / 25) = Fin (5764607523034235 / 36028797018963968)"
    by (rule round64_eqI [where e = "(- 3)" and n = "5764607523034235"]) simp_all
  have r4: "round64 (417 / 10000) = Fin (3004801671381595 / 72057594037927936)"
    by (rule round64_eqI [where e = "(- 5)" and n = "6009603342763190"]) simp_all
  have r5: "round64 (933 / 10000) = Fin (1680743380934669 / 18014398509481984)"
    by (rule round64_eqI [where e = "(- 4)" and n = "6722973523738676"]) simp_all
  have r6: "round64 (56294995342131203125 / 140737488355328) = Fin 400000"
    by (rule round64_eqI [where e = "18" and n = "6871947673600000"]) simp_all
  have r7: "round64 50000 = Fin 50000"
    by (rule round64_eqI [where e = "15" and n = "6871947673600000"]) simp_all
  have r8: "round64 (18014398509481984375 / 281474976710656) = Fin 64000"
    by (rule round64_eqI [where e = "15" and n = "8796093022208000"]) simp_all
  have r9: "round64 (46950026115337421875 / 1125899906842624) = Fin 41700"
    by (rule round64_eqI [where e = "15" and n = "5731204359782400"]) simp_all
  have r10: "round64 (26261615327104203125 / 281474976710656) = Fin 93300"
    by (rule round64_eqI [where e = "16" and n = "6411527179468800"]) simp_all
  have r11: "round64 (1 / 10) = Fin (3602879701896397 / 36028797018963968)"
    by (rule round64_eqI [where e = "(- 4)" and n = "7205759403792794"]) simp_all
  have r12: "round64 (56294995342131203125 / 562949953421312) = Fin 100000"
    by (rule round64_eqI [where e = "16" and n = "6871947673600000"]) simp_all
  have r13: "round64 114000 = Fin 114000"
    by (rule round64_eqI [where e = "16" and n = "7834020347904000"]) simp_all
  have r14: "round64 135000 = Fin 135000"
    by (rule round64_eqI [where e = "17" and n = "4638564679680000"]) simp_all
  have r15: "round64 235000 = Fin 235000"
    by (rule round64_eqI [where e = "17" and n = "8074538516480000"]) simp_all
  show ?thesis
    by (simp add: results_def Let_def js_sub_def get_property_def ARL_RATES_def
      Object_prototype_keys_def IBC_PERCENTAGE_def HEALTH_RATE_def PENSION_RATE_def
      VACATION_PROVISION_RATE_def SEVERANCE_PROVISION_RATE_def
      r1 r2 r3 r4 r5 r6 r7 r8 r9 r10 r11 r12 r13 r14 r15)
qed

text \<open>
  C5, amended. The risk level is a closed enumeration of five members, and on it the
  lookup is total: for each member, reading \<open>ARL_RATES\<close> gives the binary64 value of the
  rate of the table, which is within \<open>2 ^ -53\<close> of the rate, and the accident insurance
  is the product of \<open>ibc\<close> and that value. For a key outside the enumeration, reading
  \<open>ARL_RATES\<close> gives \<open>undefined\<close> or a member inherited from \<open>Object.prototype\<close>; nothing
  is raised and no default rate is put in its place: the accident insurance, the total
  of social security, the total costs and the net income are \<open>NaN\<close>, whatever the other
  two inputs are.
\<close>

theorem riskLevel_lookup:
  "get_property ARL_RATES (RiskLevel_value r) = Number (round64 (rateFor r)) \<and>
   near (1 / 2 ^ 53) (round64 (rateFor r)) (Fin (rateFor r)) \<and>
   arl (results c (RiskLevel_value r) q) =
     js_mul (ibc (results c (RiskLevel_value r) q)) (round64 (rateFor r)) \<and>
   (k \<notin> range RiskLevel_value \<longrightarrow>
      (get_property ARL_RATES k = Undefined \<or> get_property ARL_RATES k = Object) \<and>
      arl (results x k y) = NaN \<and>
      totalSocialSecurity (results x k y) = NaN \<and>
      totalCosts (results x k y) = NaN \<and>
      netIncome (results x k y) = NaN)"
proof -
  have a: "near (1 / 2 ^ 53) (round64 (rateFor r)) (Fin (rateFor r))"
  proof -
    have "\<bar>rateFor r\<bar> \<le> 1" using rateFor_bounds [of r] by simp
    from rate_near [OF this] show ?thesis by (simp add: u64_def)
  qed
  have b: "arl (results c (RiskLevel_value r) q) =
     js_mul (ibc (results c (RiskLevel_value r) q)) (round64 (rateFor r))"
    by (simp only: results_fields(5) get_ARL_RATES to_number.simps)
  have n: "to_number (get_property ARL_RATES k) = NaN" if "k \<notin> range RiskLevel_value"
    using get_ARL_RATES_other [OF that] by auto
  have "arl (results x k y) = NaN \<and>
      totalSocialSecurity (results x k y) = NaN \<and>
      totalCosts (results x k y) = NaN \<and>
      netIncome (results x k y) = NaN" if "k \<notin> range RiskLevel_value"
    using n [OF that]
    by (simp add: results_def Let_def js_mul_NaN_right js_add_NaN_right js_sub_def)
  then show ?thesis
    using get_ARL_RATES [of r] a b get_ARL_RATES_other [of k] by blast
qed

theorem riskLevel_lookup_witness:
  "''VI'' \<notin> range RiskLevel_value \<and>
   get_property ARL_RATES ''VI'' = Undefined \<and>
   arl (results (Fin 1000000) ''VI'' (Fin 10)) = NaN \<and>
   netIncome (results (Fin 1000000) ''VI'' (Fin 10)) = NaN \<and>
   ''toString'' \<notin> range RiskLevel_value \<and>
   get_property ARL_RATES ''toString'' = Object \<and>
   arl (results (Fin 1000000) ''toString'' (Fin 10)) = NaN \<and>
   get_property ARL_RATES (RiskLevel_value V) = Number (round64 (rateFor V))"
proof -
  have u: "get_property ARL_RATES ''VI'' = Undefined"
    by (simp add: get_property_def ARL_RATES_def Object_prototype_keys_def)
  have o: "get_property ARL_RATES ''toString'' = Object"
    by (simp add: get_property_def ARL_RATES_def Object_prototype_keys_def)
  from riskLevel_lookup [of V "Fin 0" "Fin 0" "''VI''" "Fin 1000000" "Fin 10"]
    riskLevel_lookup [of V "Fin 0" "Fin 0" "''toString''" "Fin 1000000" "Fin 10"]
    VI_not_a_RiskLevel toString_not_a_RiskLevel u o
  show ?thesis by blast
qed

section \<open>Negative amounts\<close>

lemma IBC_PERCENTAGE_nonneg: "\<exists>c. IBC_PERCENTAGE = Fin c \<and> 0 \<le> c"
proof -
  from rate_constants_near(1) obtain c where c: "IBC_PERCENTAGE = Fin c" "\<bar>c - 0.40\<bar> \<le> u64"
    by (rule near_FinE)
  from c(2) have "\<bar>c - 2 / 5\<bar> \<le> u64" by simp
  moreover have "u64 \<le> 1 / 10" by (simp add: u64_def)
  ultimately have "0 \<le> c" by linarith
  with c(1) show ?thesis by blast
qed

lemma nonneg_not_negative: "nonneg x \<Longrightarrow> \<not> js_gt (Fin 0) x"
  by (cases x) simp_all

lemma requiredGross_negative:
  assumes "d < 0" and "factorRemainder res = Fin m" and "0 < m"
  shows "requiredGross (simulatorResults (Fin d) res) = round64 (d / m)"
    and "nonneg (js_neg (requiredGross (simulatorResults (Fin d) res)))"
    and "difference (simulatorResults (Fin d) res) =
           js_sub (round64 (d / m)) (contractValue res)"
proof -
  show g: "requiredGross (simulatorResults (Fin d) res) = round64 (d / m)"
    using assms(2,3) by (simp add: simulatorResults_def Let_def)
  have "d / m \<le> 0"
    using assms(1,3) by (simp add: divide_le_0_iff)
  then show "nonneg (js_neg (requiredGross (simulatorResults (Fin d) res)))"
    unfolding g by (rule round64_nonpos)
  show "difference (simulatorResults (Fin d) res) =
           js_sub (round64 (d / m)) (contractValue res)"
    using assms(2,3) by (simp add: simulatorResults_def Let_def)
qed

text \<open>
  C6, as the specification states it: a negative contract value or desired net income is
  rejected with an error or clamped to 0. It does not hold. At the contract value
  \<open>-1000000\<close> the result keeps the contract value and every amount in it is negative;
  at the desired net income \<open>-2800000\<close> the simulator returns a negative required gross.
\<close>

theorem negative_amounts_computed_from:
  "results (Fin (- 1000000)) (RiskLevel_value I) (Fin 10) =
     \<lparr>contractValue = Fin (- 1000000),
      ibc = Fin (- 400000),
      health = Fin (- 50000),
      pension = Fin (- 64000),
      arl = Fin (- 2088),
      vacationProvision = Fin (- 41700),
      severanceProvision = Fin (- 93300),
      contractualRiskProvision = Fin (- 100000),
      totalSocialSecurity = Fin (- 116088),
      totalProvisions = Fin (- 235000),
      totalCosts = Fin (- 351088),
      netIncome = Fin (- 648912),
      nonDisposablePercent = Fin 0\<rparr> \<and>
   simulatorResults (Fin (- 2800000)) (results (Fin 3200000) (RiskLevel_value I) (Fin 10)) =
     \<lparr>requiredGross = Fin (- (1158276124959933 / 268435456)), difference = Fin (- (2017269584159933 / 268435456))\<rparr>"
proof -
  have s1: "round64 (2412658364828877 / 6871947673600000) = Fin (6324639143897011 / 18014398509481984)"
    by (rule round64_eqI [where e = "(- 2)" and n = "6324639143897011"]) simp_all
  have s2: "round64 (11689759365584973 / 18014398509481984) = Fin (2922439841396243 / 4503599627370496)"
    by (rule round64_tieI [where e = "(- 1)" and m = "5844879682792486"]) simp_all
  have s3: "round64 (- (1801439850948198400000 / 417491405913749)) = Fin (- (1158276124959933 / 268435456))"
    by (rule round64_eqI [where e = "22" and n = "(- 4633104499839732)"]) simp_all
  have s4: "round64 (- (2017269584159933 / 268435456)) = Fin (- (2017269584159933 / 268435456))"
    by (rule round64_eqI [where e = "22" and n = "(- 8069078336639732)"]) simp_all
  have a: "results (Fin (- 1000000)) (RiskLevel_value I) (Fin 10) =
     \<lparr>contractValue = Fin (- 1000000),
      ibc = Fin (- 400000),
      health = Fin (- 50000),
      pension = Fin (- 64000),
      arl = Fin (- 2088),
      vacationProvision = Fin (- 41700),
      severanceProvision = Fin (- 93300),
      contractualRiskProvision = Fin (- 100000),
      totalSocialSecurity = Fin (- 116088),
      totalProvisions = Fin (- 235000),
      totalCosts = Fin (- 351088),
      netIncome = Fin (- 648912),
      nonDisposablePercent = Fin 0\<rparr>"
    by (rule results_neg1000000_I_10)
  have b: "simulatorResults (Fin (- 2800000)) (results (Fin 3200000) (RiskLevel_value I) (Fin 10)) =
     \<lparr>requiredGross = Fin (- (1158276124959933 / 268435456)), difference = Fin (- (2017269584159933 / 268435456))\<rparr>"
    unfolding results_3200000_I_10
    by (simp add: simulatorResults_def costFactor_def factorRemainder_def Let_def js_sub_def
      s1 s2 s3 s4)
  from a b show ?thesis by (rule conjI)
qed

text \<open>
  C6, amended. The engine neither rejects nor clamps a negative amount. For every
  contract value \<open>cv < 0\<close>, whatever the other two inputs, the forward calculator keeps
  the contract value in its result and applies the same formulas to it: \<open>ibc\<close> is the
  product of \<open>cv\<close> and \<open>IBC_PERCENTAGE\<close>, a number that is not positive, the net income
  is the contract value minus the total costs, and the percentage that is not disposable
  is 0, since the guard \<open>contractValue > 0\<close> fails. For every desired net income \<open>d < 0\<close>
  and every result whose remainder is a number \<open>m > 0\<close>, the required gross is the
  binary64 quotient of \<open>d\<close> by \<open>m\<close>, which is not positive, and the difference is computed
  from it; the remainder is such a number, above a half, for every result of a contract
  value from \<open>2 ^ -1022\<close> to \<open>2 ^ 1000\<close> and a percentage in \<open>[0, 20]\<close>.

  In \<open>src/App.tsx\<close> negative amounts are kept out before the engine. The state that the
  two calculations read is the initial one changed by the handlers only, and both
  monetary fields are stored through \<open>parseInputValue\<close>, which drops the sign with every
  other character that is no digit: after every sequence of events the contract value
  and the desired net income are not negative (each is a finite number from 0 or
  \<open>Infinity\<close>), the forward calculator runs on that contract value and the simulator on
  that desired net income. The older copy \<open>src/unnamed/part_000\<close> has no such barrier:
  its contract value field stores the number typed, and a negative one is computed from.
\<close>

theorem negative_amounts:
  "(cv < 0 \<longrightarrow>
      (let res = results (Fin cv) k q
       in contractValue res = Fin cv \<and>
          ibc res = js_mul (Fin cv) IBC_PERCENTAGE \<and>
          nonneg (js_neg (ibc res)) \<and>
          netIncome res = js_sub (Fin cv) (totalCosts res) \<and>
          nonDisposablePercent res = Fin 0 \<and>
          results (part_000_contractValue_onChange (Fin cv)) k q = res)) \<and>
   (d < 0 \<and> factorRemainder res' = Fin m \<and> 0 < m \<longrightarrow>
      requiredGross (simulatorResults (Fin d) res') = round64 (d / m) \<and>
      nonneg (js_neg (requiredGross (simulatorResults (Fin d) res'))) \<and>
      difference (simulatorResults (Fin d) res') =
        js_sub (round64 (d / m)) (contractValue res')) \<and>
   (2 powi (- 1022) \<le> cv' \<and> cv' \<le> 2 ^ 1000 \<and> 0 \<le> p' \<and> p' \<le> 20 \<longrightarrow>
      (\<exists>m'. factorRemainder (results (Fin cv') (RiskLevel_value r') (Fin p')) = Fin m' \<and>
         1 / 2 < m')) \<and>
   (let st = run evs
    in nonneg (st_contractValue st) \<and>
       nonneg (st_desiredNetIncome st) \<and>
       contractValue (results_of st) = st_contractValue st \<and>
       \<not> js_gt (Fin 0) (contractValue (results_of st)) \<and>
       simulatorResults_of st = simulatorResults (st_desiredNetIncome st) (results_of st) \<and>
       \<not> js_gt (Fin 0) (st_desiredNetIncome st))"
proof -
  have A: "contractValue (results (Fin cv) k q) = Fin cv \<and>
      ibc (results (Fin cv) k q) = js_mul (Fin cv) IBC_PERCENTAGE \<and>
      nonneg (js_neg (ibc (results (Fin cv) k q))) \<and>
      netIncome (results (Fin cv) k q) = js_sub (Fin cv) (totalCosts (results (Fin cv) k q)) \<and>
      nonDisposablePercent (results (Fin cv) k q) = Fin 0 \<and>
      results (part_000_contractValue_onChange (Fin cv)) k q = results (Fin cv) k q"
    if "cv < 0"
  proof -
    from IBC_PERCENTAGE_nonneg obtain c where c: "IBC_PERCENTAGE = Fin c" "0 \<le> c"
      by blast
    have "cv * c \<le> 0"
      using that c(2) by (simp add: mult_le_0_iff)
    then have n: "nonneg (js_neg (js_mul (Fin cv) IBC_PERCENTAGE))"
      unfolding c(1) js_mul.simps by (rule round64_nonpos)
    have i: "ibc (results (Fin cv) k q) = js_mul (Fin cv) IBC_PERCENTAGE"
      by (simp add: results_def Let_def)
    have "contractValue (results (Fin cv) k q) = Fin cv"
      by (simp add: results_def Let_def)
    moreover have "netIncome (results (Fin cv) k q) =
        js_sub (Fin cv) (totalCosts (results (Fin cv) k q))"
      by (simp add: results_def Let_def)
    moreover have "nonDisposablePercent (results (Fin cv) k q) = Fin 0"
      using that by (simp add: results_def Let_def)
    moreover have "results (part_000_contractValue_onChange (Fin cv)) k q = results (Fin cv) k q"
      by (simp add: part_000_contractValue_onChange_def)
    ultimately show ?thesis using i n by simp
  qed
  have B: "requiredGross (simulatorResults (Fin d) res') = round64 (d / m) \<and>
      nonneg (js_neg (requiredGross (simulatorResults (Fin d) res'))) \<and>
      difference (simulatorResults (Fin d) res') =
        js_sub (round64 (d / m)) (contractValue res')"
    if "d < 0 \<and> factorRemainder res' = Fin m \<and> 0 < m"
    using requiredGross_negative [of d res' m] that by blast
  have C: "\<exists>m'. factorRemainder (results (Fin cv') (RiskLevel_value r') (Fin p')) = Fin m' \<and>
         1 / 2 < m'"
    if h: "2 powi (- 1022) \<le> cv' \<and> cv' \<le> 2 ^ 1000 \<and> 0 \<le> p' \<and> p' \<le> 20"
  proof -
    have cv: "tiny64 \<le> cv'" "cv' \<le> 2 ^ 1020"
      using h by (simp_all add: tiny64_def order_trans [of cv' "2 ^ 1000"])
    from h have p: "0 \<le> p'" "p' \<le> 20" by simp_all
    from factorRemainder_positive [OF cv p, of r'] show ?thesis by blast
  qed
  have D: "nonneg (st_contractValue (run evs)) \<and>
       nonneg (st_desiredNetIncome (run evs)) \<and>
       contractValue (results_of (run evs)) = st_contractValue (run evs) \<and>
       \<not> js_gt (Fin 0) (contractValue (results_of (run evs))) \<and>
       simulatorResults_of (run evs) =
         simulatorResults (st_desiredNetIncome (run evs)) (results_of (run evs)) \<and>
       \<not> js_gt (Fin 0) (st_desiredNetIncome (run evs))"
  proof -
    have v: "nonneg (st_contractValue (run evs))" "nonneg (st_desiredNetIncome (run evs))"
      using run_valid [of evs] by (simp_all add: valid_state_def)
    have e: "contractValue (results_of (run evs)) = st_contractValue (run evs)"
      by (simp add: results_of_def results_fields(1))
    show ?thesis
      using v e nonneg_not_negative [OF v(1)] nonneg_not_negative [OF v(2)]
      by (simp add: simulatorResults_of_def)
  qed
  show ?thesis
    unfolding Let_def using A B C D by blast
qed

theorem negative_amounts_witness:
  "(- 1000000 :: real) < 0 \<and>
   contractValue (results (Fin (- 1000000)) (RiskLevel_value I) (Fin 10)) = Fin (- 1000000) \<and>
   nonDisposablePercent (results (Fin (- 1000000)) (RiskLevel_value I) (Fin 10)) = Fin 0 \<and>
   ((- 2800000 :: real) < 0 \<and>
    factorRemainder (results (Fin 3200000) (RiskLevel_value I) (Fin 10)) =
      Fin (2922439841396243 / 4503599627370496) \<and>
    (0::real) < (2922439841396243 / 4503599627370496)) \<and>
   requiredGross (simulatorResults (Fin (- 2800000)) (results (Fin 3200000) (RiskLevel_value I) (Fin 10))) =
     round64 (- 2800000 / (2922439841396243 / 4503599627370496)) \<and>
   (2 powi (- 1022) \<le> (3200000::real) \<and> (3200000::real) \<le> 2 ^ 1000 \<and>
    (0::real) \<le> 10 \<and> (10::real) \<le> 20) \<and>
   st_contractValue (run [ContractValueInput ''-3.200.000'', DesiredNetIncomeInput ''-'']) =
     Fin 3200000 \<and>
   st_desiredNetIncome (run [ContractValueInput ''-3.200.000'', DesiredNetIncomeInput ''-'']) =
     Fin 0 \<and>
   nonneg (st_contractValue
     (run [ContractValueInput ''-3.200.000'', DesiredNetIncomeInput ''-'']))"
proof -
  have s1: "round64 (2412658364828877 / 6871947673600000) = Fin (6324639143897011 / 18014398509481984)"
    by (rule round64_eqI [where e = "(- 2)" and n = "6324639143897011"]) simp_all
  have s2: "round64 (11689759365584973 / 18014398509481984) = Fin (2922439841396243 / 4503599627370496)"
    by (rule round64_tieI [where e = "(- 1)" and m = "5844879682792486"]) simp_all
  have s3: "round64 (- (1801439850948198400000 / 417491405913749)) = Fin (- (1158276124959933 / 268435456))"
    by (rule round64_eqI [where e = "22" and n = "(- 4633104499839732)"]) simp_all
  have s4: "round64 (- (2017269584159933 / 268435456)) = Fin (- (2017269584159933 / 268435456))"
    by (rule round64_eqI [where e = "22" and n = "(- 8069078336639732)"]) simp_all
  have q1: "round64 3200000 = Fin 3200000"
    by (rule round64_eqI [where e = "21" and n = "6871947673600000"]) simp_all
  have h1: "(- 1000000 :: real) < 0" by simp
  have f: "factorRemainder (results (Fin 3200000) (RiskLevel_value I) (Fin 10)) =
      Fin (2922439841396243 / 4503599627370496)"
    unfolding results_3200000_I_10
    by (simp add: costFactor_def factorRemainder_def js_sub_def s1 s2)
  have h2: "(- 2800000 :: real) < 0 \<and>
    factorRemainder (results (Fin 3200000) (RiskLevel_value I) (Fin 10)) =
      Fin (2922439841396243 / 4503599627370496) \<and>
    (0::real) < (2922439841396243 / 4503599627370496)"
    using f by simp
  have h3: "2 powi (- 1022) \<le> (3200000::real) \<and> (3200000::real) \<le> 2 ^ 1000 \<and>
    (0::real) \<le> 10 \<and> (10::real) \<le> 20"
    by (simp add: power_int_minus field_simps)
  have d: "digits_value ''3200000'' = 3200000"
    by (simp add: digits_value_def)
  have s: "st_contractValue (run [ContractValueInput ''-3.200.000'', DesiredNetIncomeInput ''-'']) =
     Fin 3200000"
    "st_desiredNetIncome (run [ContractValueInput ''-3.200.000'', DesiredNetIncomeInput ''-'']) =
     Fin 0"
    by (simp_all add: run_def initial_state_def parseInputValue_def is_digit_def parseInt10_def
      d q1)
  note t = negative_amounts [where cv = "- 1000000" and k = "RiskLevel_value I" and q = "Fin 10"
      and d = "- 2800000" and res' = "results (Fin 3200000) (RiskLevel_value I) (Fin 10)"
      and m = "(2922439841396243 / 4503599627370496)" and cv' = 3200000 and p' = 10 and r' = I
      and evs = "[ContractValueInput ''-3.200.000'', DesiredNetIncomeInput ''-'']",
      unfolded Let_def]
  from t h1 have a: "contractValue (results (Fin (- 1000000)) (RiskLevel_value I) (Fin 10)) = Fin (- 1000000)"
    "nonDisposablePercent (results (Fin (- 1000000)) (RiskLevel_value I) (Fin 10)) = Fin 0"
    by blast+
  from t h2 have b: "requiredGross (simulatorResults (Fin (- 2800000)) (results (Fin 3200000) (RiskLevel_value I) (Fin 10))) =
     round64 (- 2800000 / (2922439841396243 / 4503599627370496))"
    by blast
  from t have c: "nonneg (st_contractValue
     (run [ContractValueInput ''-3.200.000'', DesiredNetIncomeInput ''-'']))"
    by blast
  from h1 a h2 b h3 s c show ?thesis
    by blast
qed

section \<open>The contract value zero\<close>

text \<open>
  C7. At the contract value 0, for every risk level among the five and every contractual
  risk percentage in \<open>[0, 20]\<close>, every field of the result is 0. The percentage that is
  not disposable is 0 through the guard: \<open>contractValue > 0\<close> is false, so the quotient
  \<open>totalCosts / contractValue\<close>, which would be \<open>NaN\<close> there, is not taken.
\<close>

theorem results_at_zero:
  "0 \<le> p \<Longrightarrow> p \<le> 20 \<Longrightarrow>
   (let res = results (Fin 0) (RiskLevel_value r) (Fin p)
    in res =
         \<lparr>contractValue = Fin 0, ibc = Fin 0, health = Fin 0, pension = Fin 0, arl = Fin 0,
          vacationProvision = Fin 0, severanceProvision = Fin 0,
          contractualRiskProvision = Fin 0, totalSocialSecurity = Fin 0,
          totalProvisions = Fin 0, totalCosts = Fin 0, netIncome = Fin 0,
          nonDisposablePercent = Fin 0\<rparr> \<and>
       \<not> js_gt (contractValue res) (Fin 0) \<and>
       js_div (totalCosts res) (contractValue res) = NaN)"
  by (simp only: results_zero Let_def) (simp add: inf_of_sign_def)

theorem results_at_zero_witness:
  "(0::real) \<le> 10 \<and> (10::real) \<le> 20 \<and>
   nonDisposablePercent (results (Fin 0) (RiskLevel_value III) (Fin 10)) = Fin 0 \<and>
   netIncome (results (Fin 0) (RiskLevel_value III) (Fin 10)) = Fin 0 \<and>
   js_div (totalCosts (results (Fin 0) (RiskLevel_value III) (Fin 10)))
          (contractValue (results (Fin 0) (RiskLevel_value III) (Fin 10))) = NaN"
proof -
  have h: "(0::real) \<le> 10" "(10::real) \<le> 20" by simp_all
  from results_at_zero [OF h, of III] h show ?thesis
    by (simp only: Let_def) (simp add: inf_of_sign_def)
qed

section \<open>Monotonicity of the net income\<close>

lemma netIncome_Fin:
  fixes cv p :: real
  assumes cv: "cv = 0 \<or> tiny64 \<le> cv" "cv \<le> 2 ^ 1020" and p: "0 \<le> p" "p \<le> 20"
  shows "\<exists>x. netIncome (results (Fin cv) (RiskLevel_value r) (Fin p)) = Fin x \<and>
           \<bar>x - (cv - cv * cost_rate r p)\<bar> \<le> 84 * (u64 * cv)"
proof (cases "cv = 0")
  case True
  have "netIncome (results (Fin 0) (RiskLevel_value r) (Fin p)) = Fin 0"
    by (simp only: results_zero [OF p]) simp
  then show ?thesis using True by simp
next
  case False
  with cv(1) have t: "tiny64 \<le> cv" by simp
  from results_error(11) [OF t cv(2) p, of r]
  obtain x where "netIncome (results (Fin cv) (RiskLevel_value r) (Fin p)) = Fin x"
    "\<bar>x - (cv - cv * cost_rate r p)\<bar> \<le> 84 * (u64 * cv)"
    by (rule near_FinE)
  then show ?thesis by blast
qed

text \<open>
  The net income grows with the contract value as soon as the two contract values are
  further apart than the rounding errors of the two results.
\<close>

lemma netIncome_gap:
  fixes v1 v2 p :: real
  assumes v1: "v1 = 0 \<or> tiny64 \<le> v1" and v2: "tiny64 \<le> v2" "v2 \<le> 2 ^ 1020"
    and p: "0 \<le> p" "p \<le> 20" and gap: "336 * (u64 * v2) < v2 - v1"
  shows "js_gt (netIncome (results (Fin v2) (RiskLevel_value r) (Fin p)))
           (netIncome (results (Fin v1) (RiskLevel_value r) (Fin p)))"
proof -
  have v20: "0 < v2" using v2(1) tiny64_bounds(1) by linarith
  have v10: "0 \<le> v1" using v1 tiny64_bounds(1) by (elim disjE) simp_all
  have "0 \<le> 336 * (u64 * v2)" using v20 u64_bounds(1) by simp
  with gap have le: "v1 \<le> v2" by linarith
  with v2(2) have v1': "v1 \<le> 2 ^ 1020" by linarith
  define K where "K = cost_rate r p"
  have K: "K \<le> 1 / 2"
    using cost_rate_bounds(2) [OF p, of r] by (simp add: K_def)
  from netIncome_Fin [OF v1 v1' p, of r]
  obtain x1 where x1: "netIncome (results (Fin v1) (RiskLevel_value r) (Fin p)) = Fin x1"
    "\<bar>x1 - (v1 - v1 * K)\<bar> \<le> 84 * (u64 * v1)"
    unfolding K_def by blast
  have "v2 = 0 \<or> tiny64 \<le> v2" using v2(1) by simp
  from netIncome_Fin [OF this v2(2) p, of r]
  obtain x2 where x2: "netIncome (results (Fin v2) (RiskLevel_value r) (Fin p)) = Fin x2"
    "\<bar>x2 - (v2 - v2 * K)\<bar> \<le> 84 * (u64 * v2)"
    unfolding K_def by blast
  define D where "D = (v2 - v1) * (1 - K)"
  define a1 where "a1 = v1 * K"
  define a2 where "a2 = v2 * K"
  define e1 where "e1 = u64 * v1"
  define e2 where "e2 = u64 * v2"
  have a: "(v2 - v1) * (1 / 2) \<le> D"
    unfolding D_def using le K by (intro mult_left_mono) simp_all
  have b: "D = (v2 - a2) - (v1 - a1)"
    by (simp add: D_def a1_def a2_def algebra_simps)
  have c: "e1 \<le> e2"
    unfolding e1_def e2_def using le u64_bounds(1) by (intro mult_left_mono) simp_all
  have g: "336 * e2 < v2 - v1"
    using gap by (simp add: e2_def)
  have y1: "\<bar>x1 - (v1 - a1)\<bar> \<le> 84 * e1"
    using x1(2) by (simp add: a1_def e1_def)
  have y2: "\<bar>x2 - (v2 - a2)\<bar> \<le> 84 * e2"
    using x2(2) by (simp add: a2_def e2_def)
  have a': "(v2 - v1) / 2 \<le> D" using a by simp
  have y1': "x1 \<le> (v1 - a1) + 84 * e1" using y1 by linarith
  have y2': "(v2 - a2) - 84 * e2 \<le> x2" using y2 by linarith
  have "x1 \<le> (v1 - a1) + 84 * e2" using y1' c by linarith
  moreover have "(v1 - a1) + 84 * e2 < (v2 - a2) - 84 * e2"
    using a' b g by argo
  ultimately have "x1 < x2" using y2' by linarith
  then show ?thesis by (simp add: x1(1) x2(1))
qed

text \<open>
  C8, as the specification states it: for a fixed risk level among the five and a fixed
  percentage, and contract values \<open>0 \<le> v1 < v2\<close> at which the quotient of the total costs
  by the contract value is below 1, the net income at \<open>v2\<close> is strictly greater than at
  \<open>v1\<close>. It does not hold: at the risk level II and the percentage 0 the contract values
  \<open>4503599627370499\<close> and \<open>4503599627370500\<close> have the same net income.
\<close>

theorem netIncome_not_strictly_increasing:
  "(0::real) \<le> 4503599627370499 \<and> (4503599627370499::real) < 4503599627370500 \<and>
   js_gt (Fin 1)
     (js_div (totalCosts (results (Fin 4503599627370499) (RiskLevel_value II) (Fin 0)))
        (contractValue (results (Fin 4503599627370499) (RiskLevel_value II) (Fin 0)))) \<and>
   js_gt (Fin 1)
     (js_div (totalCosts (results (Fin 4503599627370500) (RiskLevel_value II) (Fin 0)))
        (contractValue (results (Fin 4503599627370500) (RiskLevel_value II) (Fin 0)))) \<and>
   netIncome (results (Fin 4503599627370499) (RiskLevel_value II) (Fin 0)) = Fin 3363396288111346 \<and>
   netIncome (results (Fin 4503599627370500) (RiskLevel_value II) (Fin 0)) = Fin 3363396288111346 \<and>
   \<not> js_gt (netIncome (results (Fin 4503599627370500) (RiskLevel_value II) (Fin 0)))
          (netIncome (results (Fin 4503599627370499) (RiskLevel_value II) (Fin 0)))"
proof -
  have s1: "round64 (4560813357036613 / 18014398509481996) = Fin (2280406678518305 / 9007199254740992)"
    by (rule round64_eqI [where e = "(- 2)" and n = "4560813357036610"]) simp_all
  have s2: "round64 (912162671407323 / 3602879701896400) = Fin (4560813357036611 / 18014398509481984)"
    by (rule round64_eqI [where e = "(- 2)" and n = "4560813357036611"]) simp_all
  show ?thesis
    unfolding results_4503599627370499_II_0 results_4503599627370500_II_0
    by (simp add: s1 s2)
qed

text \<open>
  C8, amended. For a fixed risk level among the five and a fixed percentage in
  \<open>[0, 20]\<close>, and contract values \<open>v1\<close> and \<open>v2\<close>, where \<open>v1\<close> is 0 or at least \<open>2 ^ -1022\<close>
  and \<open>v2\<close> is from \<open>2 ^ -1022\<close> to \<open>2 ^ 1000\<close>: if \<open>v2\<close> is at least \<open>v1 * (1 + 1e-12)\<close>, or
  if \<open>v2\<close> is at least \<open>v1 + 1\<close> and at most \<open>10 ^ 12\<close>, then the net income at \<open>v2\<close> is
  strictly greater than the net income at \<open>v1\<close>; and the quotient of the total costs by
  the contract value at \<open>v2\<close> is below 1. Between contract values closer to each other
  than that, the net income may stay the same.
\<close>

theorem netIncome_strictly_increasing:
  assumes "v1 = 0 \<or> 2 powi (- 1022) \<le> v1" and "2 powi (- 1022) \<le> v2" and "v2 \<le> 2 ^ 1000"
    and "0 \<le> p" and "p \<le> 20"
    and "v1 * (1 + 1 / 10 ^ 12) \<le> v2 \<or> (v1 + 1 \<le> v2 \<and> v2 \<le> 10 ^ 12)"
  shows "js_gt (netIncome (results (Fin v2) (RiskLevel_value r) (Fin p)))
           (netIncome (results (Fin v1) (RiskLevel_value r) (Fin p))) \<and>
         js_gt (Fin 1)
           (js_div (totalCosts (results (Fin v2) (RiskLevel_value r) (Fin p)))
              (contractValue (results (Fin v2) (RiskLevel_value r) (Fin p))))"
proof -
  have v1: "v1 = 0 \<or> tiny64 \<le> v1"
    using assms(1) by (simp only: tiny64_def)
  have v2: "tiny64 \<le> v2" "v2 \<le> 2 ^ 1020"
    using assms(2,3) by (simp_all add: tiny64_def order_trans [of v2 "2 ^ 1000"])
  have p: "0 \<le> p" "p \<le> 20" by (rule assms)+
  have v20: "0 < v2" using v2(1) tiny64_bounds(1) by linarith
  have v10: "0 \<le> v1" using v1 tiny64_bounds(1) by (elim disjE) simp_all
  have "336 * v2 / 9007199254740992 < v2 - v1"
    using assms(6)
  proof (elim disjE conjE)
    assume "v1 * (1 + 1 / 10 ^ 12) \<le> v2"
    then have "v1 + v1 / 1000000000000 \<le> v2"
      by (simp add: algebra_simps)
    with v20 show ?thesis by linarith
  next
    assume "v1 + 1 \<le> v2" and "v2 \<le> 10 ^ 12"
    then have "v1 + 1 \<le> v2" and "v2 \<le> 1000000000000" by simp_all
    then show ?thesis by linarith
  qed
  then have gap: "336 * (u64 * v2) < v2 - v1"
    by (simp add: u64_def)
  have first: "js_gt (netIncome (results (Fin v2) (RiskLevel_value r) (Fin p)))
           (netIncome (results (Fin v1) (RiskLevel_value r) (Fin p)))"
    using v1 v2 p gap by (rule netIncome_gap)
  from ratio_error [OF v2 p, of r]
  obtain q where q: "js_div (totalCosts (results (Fin v2) (RiskLevel_value r) (Fin p))) (Fin v2)
      = Fin q" "\<bar>q - cost_rate r p\<bar> \<le> 84 * u64"
    by (rule near_FinE)
  have "cost_rate r p \<le> 1 / 2"
    using cost_rate_bounds(2) [OF p, of r] by simp
  moreover have "84 * u64 \<le> 1 / 4" by (simp add: u64_def)
  ultimately have "q < 1" using q(2) by linarith
  then have second: "js_gt (Fin 1)
           (js_div (totalCosts (results (Fin v2) (RiskLevel_value r) (Fin p)))
              (contractValue (results (Fin v2) (RiskLevel_value r) (Fin p))))"
    by (simp only: results_fields(1) q(1)) simp
  from first second show ?thesis by (rule conjI)
qed

theorem netIncome_strictly_increasing_witness:
  "((1000000::real) = 0 \<or> 2 powi (- 1022) \<le> (1000000::real)) \<and>
   2 powi (- 1022) \<le> (3200000::real) \<and> (3200000::real) \<le> 2 ^ 1000 \<and>
   (0::real) \<le> 10 \<and> (10::real) \<le> 20 \<and>
   ((1000000::real) * (1 + 1 / 10 ^ 12) \<le> 3200000 \<or>
    ((1000000::real) + 1 \<le> 3200000 \<and> (3200000::real) \<le> 10 ^ 12)) \<and>
   js_gt (netIncome (results (Fin 3200000) (RiskLevel_value I) (Fin 10)))
     (netIncome (results (Fin 1000000) (RiskLevel_value I) (Fin 10))) \<and>
   netIncome (results (Fin 1000000) (RiskLevel_value I) (Fin 10)) = Fin 648912 \<and>
   netIncome (results (Fin 3200000) (RiskLevel_value I) (Fin 10)) =
     Fin (4459289308771123 / 2147483648)"
proof -
  have h1: "(1000000::real) = 0 \<or> 2 powi (- 1022) \<le> (1000000::real)"
    by (simp add: power_int_minus field_simps)
  have h2: "2 powi (- 1022) \<le> (3200000::real)" "(3200000::real) \<le> 2 ^ 1000"
    by (simp_all add: power_int_minus field_simps)
  have h3: "(0::real) \<le> 10" "(10::real) \<le> 20" by simp_all
  have h4: "(1000000::real) * (1 + 1 / 10 ^ 12) \<le> 3200000 \<or>
    ((1000000::real) + 1 \<le> 3200000 \<and> (3200000::real) \<le> 10 ^ 12)"
    by simp
  have n1: "netIncome (results (Fin 1000000) (RiskLevel_value I) (Fin 10)) = Fin 648912"
    unfolding results_1000000_I_10 by simp
  have n2: "netIncome (results (Fin 3200000) (RiskLevel_value I) (Fin 10)) =
     Fin (4459289308771123 / 2147483648)"
    unfolding results_3200000_I_10 by simp
  from netIncome_strictly_increasing [OF h1 h2 h3 h4, of I]
  have g: "js_gt (netIncome (results (Fin 3200000) (RiskLevel_value I) (Fin 10)))
     (netIncome (results (Fin 1000000) (RiskLevel_value I) (Fin 10)))"
    by (rule conjunct1)
  from h1 h2 h3 h4 g n1 n2 show ?thesis
    by blast
qed

section \<open>The scenario of the specification\<close>

text \<open>
  C9, as the specification states it: at the contract value 3200000, the risk level I
  and the percentage 10, the accident insurance is 6681.6. It is not: the product of
  \<open>ibc\<close> and the rate is the binary64 number just below the one nearest to 6681.6.
\<close>

theorem arl_scenario_not_exact:
  "arl (results (Fin 3200000) (RiskLevel_value I) (Fin 10)) = Fin (7346496892148121 / 1099511627776) \<and>
   arl (results (Fin 3200000) (RiskLevel_value I) (Fin 10)) \<noteq> Fin 6681.6 \<and>
   round64 6681.6 = Fin (3673248446074061 / 549755813888) \<and>
   arl (results (Fin 3200000) (RiskLevel_value I) (Fin 10)) \<noteq> round64 6681.6"
proof -
  have n1: "round64 (33408 / 5) = Fin (3673248446074061 / 549755813888)"
    by (rule round64_eqI [where e = "12" and n = "7346496892148122"]) simp_all
  have n2: "round64 (1857408 / 5) = Fin (3191002646131507 / 8589934592)"
    by (rule round64_eqI [where e = "18" and n = "6382005292263014"]) simp_all
  have n3: "round64 (5617408 / 5) = Fin (2412658364828877 / 2147483648)"
    by (rule round64_eqI [where e = "20" and n = "4825316729657754"]) simp_all
  have n4: "round64 (10382592 / 5) = Fin (4459289308771123 / 2147483648)"
    by (rule round64_eqI [where e = "20" and n = "8918578617542246"]) simp_all
  have r: "round64 6681.6 = Fin (3673248446074061 / 549755813888)"
    using n1 by simp
  show ?thesis
    unfolding r results_3200000_I_10 by simp
qed

text \<open>
  C9, amended. At the contract value 3200000, the risk level I and the percentage 10 the
  result is the record below. The fields \<open>ibc\<close>, \<open>health\<close>, \<open>pension\<close>, the three
  provisions and their total are the integers of the specification. The total of social
  security, the total costs and the net income are the binary64 numbers nearest to
  371481.6, 1123481.6 and 2076518.4. The accident insurance is within \<open>1e-11\<close> of 6681.6,
  and the percentage that is not disposable is within 0.005 of 35.11.
\<close>

theorem results_scenario:
  "results (Fin 3200000) (RiskLevel_value I) (Fin 10) =
     \<lparr>contractValue = Fin 3200000,
      ibc = Fin 1280000,
      health = Fin 160000,
      pension = Fin 204800,
      arl = Fin (7346496892148121 / 1099511627776),
      vacationProvision = Fin 133440,
      severanceProvision = Fin 298560,
      contractualRiskProvision = Fin 320000,
      totalSocialSecurity = Fin (3191002646131507 / 8589934592),
      totalProvisions = Fin 752000,
      totalCosts = Fin (2412658364828877 / 2147483648),
      netIncome = Fin (4459289308771123 / 2147483648),
      nonDisposablePercent = Fin (1235281082792385 / 35184372088832)\<rparr> \<and>
   totalSocialSecurity (results (Fin 3200000) (RiskLevel_value I) (Fin 10)) = round64 371481.6 \<and>
   totalCosts (results (Fin 3200000) (RiskLevel_value I) (Fin 10)) = round64 1123481.6 \<and>
   netIncome (results (Fin 3200000) (RiskLevel_value I) (Fin 10)) = round64 2076518.4 \<and>
   near (1 / 10 ^ 11) (arl (results (Fin 3200000) (RiskLevel_value I) (Fin 10))) (Fin 6681.6) \<and>
   near (1 / 10 ^ 9) (totalSocialSecurity (results (Fin 3200000) (RiskLevel_value I) (Fin 10))) (Fin 371481.6) \<and>
   near (1 / 10 ^ 9) (totalCosts (results (Fin 3200000) (RiskLevel_value I) (Fin 10))) (Fin 1123481.6) \<and>
   near (1 / 10 ^ 9) (netIncome (results (Fin 3200000) (RiskLevel_value I) (Fin 10))) (Fin 2076518.4) \<and>
   near 0.005 (nonDisposablePercent (results (Fin 3200000) (RiskLevel_value I) (Fin 10))) (Fin 35.11)"
proof -
  have n1: "round64 (33408 / 5) = Fin (3673248446074061 / 549755813888)"
    by (rule round64_eqI [where e = "12" and n = "7346496892148122"]) simp_all
  have n2: "round64 (1857408 / 5) = Fin (3191002646131507 / 8589934592)"
    by (rule round64_eqI [where e = "18" and n = "6382005292263014"]) simp_all
  have n3: "round64 (5617408 / 5) = Fin (2412658364828877 / 2147483648)"
    by (rule round64_eqI [where e = "20" and n = "4825316729657754"]) simp_all
  have n4: "round64 (10382592 / 5) = Fin (4459289308771123 / 2147483648)"
    by (rule round64_eqI [where e = "20" and n = "8918578617542246"]) simp_all
  have r: "round64 371481.6 = Fin (3191002646131507 / 8589934592)"
    "round64 1123481.6 = Fin (2412658364828877 / 2147483648)"
    "round64 2076518.4 = Fin (4459289308771123 / 2147483648)"
    using n2 n3 n4 by simp_all
  show ?thesis
    unfolding r results_3200000_I_10 by simp
qed

section \<open>The bound on the cost ratio\<close>

text \<open>
  C10, as the specification states it: for every contract value above 0, every risk
  level among the five and every percentage in \<open>[0, 20]\<close> the quotient of the total costs
  by the contract value is at most 0.47684, and the branch of the simulator that gives
  the required gross 0 is not taken. Neither holds on the whole range. At the contract
  value 1003000, the risk level V and the percentage 20 the quotient is above 0.47684.
  At the contract value \<open>Infinity\<close>, which is above 0, the total costs are \<open>Infinity\<close>, the
  net income and the remainder are \<open>NaN\<close>, and the simulator gives the required gross 0.
\<close>

theorem cost_ratio_exceeds_bound:
  "js_div (totalCosts (results (Fin 1003000) (RiskLevel_value V) (Fin 20)))
     (contractValue (results (Fin 1003000) (RiskLevel_value V) (Fin 20))) =
     Fin (4294992892630695 / 9007199254740992) \<and>
   js_gt (js_div (totalCosts (results (Fin 1003000) (RiskLevel_value V) (Fin 20)))
            (contractValue (results (Fin 1003000) (RiskLevel_value V) (Fin 20))))
     (Fin 0.47684) \<and>
   js_gt (contractValue (results PInf (RiskLevel_value V) (Fin 20))) (Fin 0) \<and>
   totalCosts (results PInf (RiskLevel_value V) (Fin 20)) = PInf \<and>
   netIncome (results PInf (RiskLevel_value V) (Fin 20)) = NaN \<and>
   factorRemainder (results PInf (RiskLevel_value V) (Fin 20)) = NaN \<and>
   requiredGross
     (simulatorResults (Fin 2800000) (results PInf (RiskLevel_value V) (Fin 20))) = Fin 0"
proof -
  have s1: "round64 (1027078121020457 / 2153926098944000) = Fin (4294992892630695 / 9007199254740992)"
    by (rule round64_eqI [where e = "(- 2)" and n = "8589985785261390"]) simp_all
  have c1: "round64 (2 / 5) = Fin (3602879701896397 / 9007199254740992)"
    by (rule round64_eqI [where e = "(- 2)" and n = "7205759403792794"]) simp_all
  have c2: "round64 (1 / 8) = Fin (1 / 8)"
    by (rule round64_eqI [where e = "(- 3)" and n = "4503599627370496"]) simp_all
  have c3: "round64 (4 / 25) = Fin (5764607523034235 / 36028797018963968)"
    by (rule round64_eqI [where e = "(- 3)" and n = "5764607523034235"]) simp_all
  have c4: "round64 (417 / 10000) = Fin (3004801671381595 / 72057594037927936)"
    by (rule round64_eqI [where e = "(- 5)" and n = "6009603342763190"]) simp_all
  have c5: "round64 (933 / 10000) = Fin (1680743380934669 / 18014398509481984)"
    by (rule round64_eqI [where e = "(- 4)" and n = "6722973523738676"]) simp_all
  have c6: "round64 (87 / 1250) = Fin (626901068129973 / 9007199254740992)"
    by (rule round64_eqI [where e = "(- 4)" and n = "5015208545039784"]) simp_all
  have c7: "round64 (1 / 5) = Fin (3602879701896397 / 18014398509481984)"
    by (rule round64_eqI [where e = "(- 3)" and n = "7205759403792794"]) simp_all
  have a: "js_div (totalCosts (results (Fin 1003000) (RiskLevel_value V) (Fin 20)))
     (contractValue (results (Fin 1003000) (RiskLevel_value V) (Fin 20))) =
     Fin (4294992892630695 / 9007199254740992)"
    unfolding results_1003000_V_20 by (simp add: s1)
  have b: "js_gt (Fin (4294992892630695 / 9007199254740992)) (Fin 0.47684)"
    by simp
  have c: "results PInf (RiskLevel_value V) (Fin 20) =
    \<lparr>contractValue = PInf, ibc = PInf, health = PInf, pension = PInf, arl = PInf,
     vacationProvision = PInf, severanceProvision = PInf, contractualRiskProvision = PInf,
     totalSocialSecurity = PInf, totalProvisions = PInf, totalCosts = PInf,
     netIncome = NaN, nonDisposablePercent = NaN\<rparr>"
    by (simp add: results_def Let_def js_sub_def get_property_def ARL_RATES_def
      IBC_PERCENTAGE_def HEALTH_RATE_def PENSION_RATE_def VACATION_PROVISION_RATE_def
      SEVERANCE_PROVISION_RATE_def inf_of_sign_def c1 c2 c3 c4 c5 c6 c7)
  have d: "js_gt (contractValue (results PInf (RiskLevel_value V) (Fin 20))) (Fin 0) \<and>
   totalCosts (results PInf (RiskLevel_value V) (Fin 20)) = PInf \<and>
   netIncome (results PInf (RiskLevel_value V) (Fin 20)) = NaN \<and>
   factorRemainder (results PInf (RiskLevel_value V) (Fin 20)) = NaN \<and>
   requiredGross
     (simulatorResults (Fin 2800000) (results PInf (RiskLevel_value V) (Fin 20))) = Fin 0"
    unfolding c
    by (simp add: simulatorResults_def costFactor_def factorRemainder_def Let_def js_sub_def)
  from a b d show ?thesis
    by (simp only: simp_thms)
qed

text \<open>
  C10, amended. For every contract value from \<open>2 ^ -1022\<close> to \<open>2 ^ 1000\<close>, every risk
  level among the five and every percentage in \<open>[0, 20]\<close>: the sum of the rates is at
  most \<open>0.40 * (0.125 + 0.16 + 0.0696) + 0.0417 + 0.0933 + 0.20 = 0.47684\<close>; the quotient
  of the total costs by the contract value is a number within \<open>1e-12\<close> of the sum of the
  rates, hence below \<open>0.47684 + 1e-12\<close> and below 1; the net income is above 0; the
  percentage that is not disposable is below 100; the remainder of the simulator is
  above 0, and for every desired net income the required gross is the quotient of the
  desired net income by the remainder: the branch that gives 0 is not taken.
\<close>

theorem cost_ratio_bounded:
  assumes "2 powi (- 1022) \<le> cv" and "cv \<le> 2 ^ 1000" and "0 \<le> p" and "p \<le> 20"
  shows "(let res = results (Fin cv) (RiskLevel_value r) (Fin p)
          in cost_rate r p \<le> 0.40 * (0.125 + 0.16 + 0.0696) + 0.0417 + 0.0933 + 0.20 \<and>
             0.40 * (0.125 + 0.16 + 0.0696) + 0.0417 + 0.0933 + 0.20 = (0.47684::real) \<and>
             near (1 / 10 ^ 12) (js_div (totalCosts res) (contractValue res))
               (Fin (cost_rate r p)) \<and>
             js_gt (Fin (0.47684 + 1 / 10 ^ 12)) (js_div (totalCosts res) (contractValue res)) \<and>
             js_gt (Fin 1) (js_div (totalCosts res) (contractValue res)) \<and>
             js_gt (netIncome res) (Fin 0) \<and>
             js_gt (Fin 100) (nonDisposablePercent res) \<and>
             js_gt (factorRemainder res) (Fin 0) \<and>
             requiredGross (simulatorResults d res) = js_div d (factorRemainder res))"
proof -
  let ?res = "results (Fin cv) (RiskLevel_value r) (Fin p)"
  have cv: "tiny64 \<le> cv" "cv \<le> 2 ^ 1020"
    using assms(1,2) by (simp_all add: tiny64_def order_trans [of cv "2 ^ 1000"])
  have p: "0 \<le> p" "p \<le> 20" by (rule assms)+
  have cv0: "0 < cv" using cv(1) tiny64_bounds(1) by linarith
  have K: "cost_rate r p \<le> 47684 / 100000"
    using cost_rate_bounds(2) [OF p, of r] by simp
  have c1: "cost_rate r p \<le> 0.40 * (0.125 + 0.16 + 0.0696) + 0.0417 + 0.0933 + 0.20"
    using K by simp
  have c2: "0.40 * (0.125 + 0.16 + 0.0696) + 0.0417 + 0.0933 + 0.20 = (0.47684::real)"
    by simp
  have u: "84 * u64 \<le> 1 / 10 ^ 13" "8800 * u64 \<le> 1 / 10 ^ 11"
    by (simp_all add: u64_def)
  have cvr: "contractValue ?res = Fin cv" by (rule results_fields(1))
  from ratio_error [OF cv p, of r]
  obtain q where q: "js_div (totalCosts ?res) (Fin cv) = Fin q"
    "\<bar>q - cost_rate r p\<bar> \<le> 84 * u64"
    by (rule near_FinE)
  have c3: "near (1 / 10 ^ 12) (js_div (totalCosts ?res) (contractValue ?res))
      (Fin (cost_rate r p))"
    unfolding cvr q(1) using q(2) u(1) by simp
  have "q < 47684 / 100000 + 1 / 10 ^ 12"
    using q(2) u(1) K by simp
  then have c4: "js_gt (Fin (0.47684 + 1 / 10 ^ 12))
      (js_div (totalCosts ?res) (contractValue ?res))"
    unfolding cvr q(1) by simp
  have "q < 1"
    using q(2) u(1) K by simp
  then have c5: "js_gt (Fin 1) (js_div (totalCosts ?res) (contractValue ?res))"
    unfolding cvr q(1) by simp
  have c6: "js_gt (netIncome ?res) (Fin 0)"
  proof -
    from results_error(11) [OF cv p, of r]
    obtain x where x: "netIncome ?res = Fin x"
      "\<bar>x - (cv - cv * cost_rate r p)\<bar> \<le> 84 * (u64 * cv)"
      by (rule near_FinE)
    define a where "a = cv * cost_rate r p"
    define e where "e = u64 * cv"
    have "cv * cost_rate r p \<le> cv * (1 / 2)"
      using cv0 K by (intro mult_left_mono) simp_all
    then have a: "a \<le> cv / 2" by (simp add: a_def)
    have e: "84 * e \<le> cv / 4"
      using cv0 by (simp add: e_def u64_def)
    have "\<bar>x - (cv - a)\<bar> \<le> 84 * e"
      using x(2) by (simp add: a_def e_def)
    with a e cv0 have "0 < x" by linarith
    then show ?thesis by (simp add: x(1))
  qed
  have c7: "js_gt (Fin 100) (nonDisposablePercent ?res)"
  proof -
    from nonDisposablePercent_error [OF cv p, of r]
    obtain y where y: "nonDisposablePercent ?res = Fin y"
      "\<bar>y - cost_rate r p * 100\<bar> \<le> 8800 * u64"
      by (rule near_FinE)
    have "y < 100" using y(2) u(2) K by simp
    then show ?thesis by (simp add: y(1))
  qed
  from factorRemainder_positive [OF cv p, of r]
  obtain m where m: "factorRemainder ?res = Fin m" "1 / 2 < m"
    by blast
  have c8: "js_gt (factorRemainder ?res) (Fin 0)"
    using m by simp
  have c9: "requiredGross (simulatorResults d ?res) = js_div d (factorRemainder ?res)"
    using c8 by (simp add: simulatorResults_def Let_def)
  from c1 c2 c3 c4 c5 c6 c7 c8 c9 show ?thesis
    unfolding Let_def by (intro conjI)
qed

theorem cost_ratio_bounded_witness:
  "2 powi (- 1022) \<le> (1003000::real) \<and> (1003000::real) \<le> 2 ^ 1000 \<and>
   (0::real) \<le> 20 \<and> (20::real) \<le> 20 \<and>
   js_div (totalCosts (results (Fin 1003000) (RiskLevel_value V) (Fin 20)))
     (contractValue (results (Fin 1003000) (RiskLevel_value V) (Fin 20))) =
     Fin (4294992892630695 / 9007199254740992) \<and>
   near (1 / 10 ^ 12)
     (js_div (totalCosts (results (Fin 1003000) (RiskLevel_value V) (Fin 20)))
        (contractValue (results (Fin 1003000) (RiskLevel_value V) (Fin 20))))
     (Fin (cost_rate V 20)) \<and>
   js_gt (netIncome (results (Fin 1003000) (RiskLevel_value V) (Fin 20))) (Fin 0) \<and>
   js_gt (factorRemainder (results (Fin 1003000) (RiskLevel_value V) (Fin 20))) (Fin 0)"
proof -
  have s1: "round64 (1027078121020457 / 2153926098944000) = Fin (4294992892630695 / 9007199254740992)"
    by (rule round64_eqI [where e = "(- 2)" and n = "8589985785261390"]) simp_all
  have h: "2 powi (- 1022) \<le> (1003000::real)" "(1003000::real) \<le> 2 ^ 1000"
    "(0::real) \<le> 20" "(20::real) \<le> 20"
    by (simp_all add: power_int_minus field_simps)
  have a: "js_div (totalCosts (results (Fin 1003000) (RiskLevel_value V) (Fin 20)))
     (contractValue (results (Fin 1003000) (RiskLevel_value V) (Fin 20))) =
     Fin (4294992892630695 / 9007199254740992)"
    unfolding results_1003000_V_20 by (simp add: s1)
  note t = cost_ratio_bounded [OF h, of V "Fin 0", unfolded Let_def]
  from t have b: "near (1 / 10 ^ 12)
     (js_div (totalCosts (results (Fin 1003000) (RiskLevel_value V) (Fin 20)))
        (contractValue (results (Fin 1003000) (RiskLevel_value V) (Fin 20))))
     (Fin (cost_rate V 20))"
    by blast
  from t have c: "js_gt (netIncome (results (Fin 1003000) (RiskLevel_value V) (Fin 20))) (Fin 0)"
    "js_gt (factorRemainder (results (Fin 1003000) (RiskLevel_value V) (Fin 20))) (Fin 0)"
    by blast+
  from h a b c show ?thesis
    by (intro conjI)
qed

end
